theory Spec2Isabelle
  imports Main
begin

section \<open>The quota administration API: \<^verbatim>\<open>lib/galaxy/webapps/galaxy/api/quotas.py\<close>\<close>

text \<open>
  The module binds eight HTTP operations on quotas to the methods of a quota manager,
  twice: the class \<^verbatim>\<open>FastAPIQuota\<close> (typed route handlers) and the class
  \<^verbatim>\<open>QuotaAPIController\<close> (legacy keyword-argument handlers). Each handler of the
  source is one definition below, named \<^verbatim>\<open>Class_method\<close>. The Python variables
  \<^verbatim>\<open>trans\<close> and \<^verbatim>\<open>id\<close> are written \<open>trans'\<close> and \<open>id'\<close>, since both names are
  HOL constants.
\<close>

subsection \<open>Python values, errors, the request context\<close>

text \<open>
  \<^verbatim>\<open>EncodedDatabaseIdField\<close> is a subclass of \<^verbatim>\<open>str\<close>: an identifier is a string.
\<close>

type_synonym encoded_id = string

text \<open>
  The values a legacy handler receives in \<^verbatim>\<open>payload\<close> and \<^verbatim>\<open>**kwd\<close>: what a decoded
  JSON body or a query string holds.
\<close>

datatype pyval =
    PNone
  | PBool bool
  | PInt int
  | PStr string
  | PList "pyval list"
  | PDict "(string \<times> pyval) list"

text \<open>
  The exceptions of the spec's error taxonomy, and Python's \<^verbatim>\<open>TypeError\<close>, which
  \<^verbatim>\<open>f(**x)\<close> raises when \<^verbatim>\<open>x\<close> is not a mapping.
\<close>

datatype error =
    AuthorizationError
  | NotFoundError
  | ValidationError string
  | ConflictError
  | TypeError

text \<open>
  Modelled from the spec: \<^verbatim>\<open>galaxy.managers.context.ProvidesUserContext\<close> is not part
  of the source under study. The spec's per-request context carries the caller's identity;
  the only thing this module's access gate reads is whether the caller holds administrator
  privilege.
\<close>

record ProvidesUserContext =
  user_is_admin :: bool

subsection \<open>The quota manager as a collaborator\<close>

text \<open>
  \<^verbatim>\<open>self.manager\<close> is a \<^verbatim>\<open>QuotasManager\<close>, a class that is not part of the source
  under study: it is a parameter of every handler. A call of one of its six methods is a
  value of \<open>manager_call\<close>; the manager maps a call and the state of the data store to a
  result (or a raised error) and the new state. The type parameters \<open>'cp\<close>, \<open>'up\<close> and
  \<open>'dp\<close> are the classes \<^verbatim>\<open>CreateQuotaParams\<close>, \<^verbatim>\<open>UpdateQuotaParams\<close> and
  \<^verbatim>\<open>DeleteQuotaPayload\<close> of \<^verbatim>\<open>galaxy.quota._schema\<close>, \<open>'r\<close> is what the manager
  returns and \<open>'s\<close> is the data store. The payload of \<^verbatim>\<open>delete\<close> is an option:
  the typed handler passes Python's \<^verbatim>\<open>None\<close> when the request has no body.
\<close>

datatype ('cp, 'up, 'dp) manager_call =
    Call_index ProvidesUserContext bool
  | Call_show ProvidesUserContext encoded_id bool
  | Call_create ProvidesUserContext 'cp
  | Call_update ProvidesUserContext encoded_id 'up
  | Call_delete ProvidesUserContext encoded_id "'dp option"
  | Call_undelete ProvidesUserContext encoded_id

type_synonym ('cp, 'up, 'dp, 'r, 's) QuotasManager =
  "('cp, 'up, 'dp) manager_call \<Rightarrow> 's \<Rightarrow> (error + 'r) \<times> 's"

text \<open>
  Modelled from the spec: the signature of \<^verbatim>\<open>QuotasManager.index\<close> and
  \<^verbatim>\<open>QuotasManager.show\<close> is missing from the source. The typed handlers \<^verbatim>\<open>index\<close>
  and \<^verbatim>\<open>show\<close> call them without the \<^verbatim>\<open>deleted\<close> argument; the spec's table of
  operations gives "List active: deleted=false" and "Show active", so the omitted flag is
  false.
\<close>

definition default_deleted :: bool where
  "default_deleted = False"

text \<open>
  What a request sees and leaves behind: the data store, and the log of the calls made to
  the manager, oldest first.
\<close>

record ('cp, 'up, 'dp, 's) world =
  store :: 's
  calls :: "('cp, 'up, 'dp) manager_call list"

type_synonym ('cp, 'up, 'dp, 'r, 's) outcome =
  "(error + 'r) \<times> ('cp, 'up, 'dp, 's) world"

text \<open>\<^verbatim>\<open>return self.manager.m(...)\<close>: one call, its result or error handed back as it is.\<close>

definition invoke ::
  "('cp, 'up, 'dp, 'r, 's) QuotasManager \<Rightarrow> ('cp, 'up, 'dp) manager_call
     \<Rightarrow> ('cp, 'up, 'dp, 's) world \<Rightarrow> ('cp, 'up, 'dp, 'r, 's) outcome" where
  "invoke manager c w =
     (case manager c (store w) of
        (r, s') \<Rightarrow> (r, \<lparr>store = s', calls = calls w @ [c]\<rparr>))"

text \<open>
  An expression that may raise, followed by the rest of the handler: the error leaves the
  handler at once, with the world as it was.
\<close>

definition raising ::
  "error + 'a \<Rightarrow> ('a \<Rightarrow> 'w \<Rightarrow> (error + 'r) \<times> 'w) \<Rightarrow> 'w \<Rightarrow> (error + 'r) \<times> 'w" where
  "raising v k w = (case v of Inl e \<Rightarrow> (Inl e, w) | Inr a \<Rightarrow> k a w)"

subsection \<open>The administrator gate\<close>

text \<open>
  Modelled from the spec: \<^verbatim>\<open>AdminUserRequired\<close> (the dependency listed on every typed
  route) and the decorator \<^verbatim>\<open>web.require_admin\<close> (the outermost decorator of every
  legacy handler) are not part of the source under study. The spec: "unauthorized callers
  receive an authorization failure before any manager call is made", "unauthorized requests
  must be rejected uniformly before dispatch, returning an authorization-failure response".
  Each takes the context and the handler's body; the body runs only for an administrator.
\<close>

definition AdminUserRequired ::
  "ProvidesUserContext \<Rightarrow> ('w \<Rightarrow> (error + 'r) \<times> 'w) \<Rightarrow> 'w \<Rightarrow> (error + 'r) \<times> 'w" where
  "AdminUserRequired trans' body w =
     (if user_is_admin trans' then body w else (Inl AuthorizationError, w))"

definition require_admin ::
  "ProvidesUserContext \<Rightarrow> ('w \<Rightarrow> (error + 'r) \<times> 'w) \<Rightarrow> 'w \<Rightarrow> (error + 'r) \<times> 'w" where
  "require_admin trans' body w =
     (if user_is_admin trans' then body w else (Inl AuthorizationError, w))"

subsection \<open>The class \<^verbatim>\<open>FastAPIQuota\<close>\<close>

text \<open>
  The framework binds the path and the body to the handler's typed parameters before the
  handler runs, so \<^verbatim>\<open>payload\<close> is already a \<^verbatim>\<open>CreateQuotaParams\<close> or
  \<^verbatim>\<open>UpdateQuotaParams\<close> object. For \<^verbatim>\<open>delete\<close> the parameter is declared
  \<^verbatim>\<open>payload: DeleteQuotaPayload = Body(None)\<close>: a request without a body gives \<open>None\<close>.
\<close>

definition FastAPIQuota_index ::
  "('cp, 'up, 'dp, 'r, 's) QuotasManager \<Rightarrow> ProvidesUserContext
     \<Rightarrow> ('cp, 'up, 'dp, 's) world \<Rightarrow> ('cp, 'up, 'dp, 'r, 's) outcome" where
  "FastAPIQuota_index manager trans' =
     AdminUserRequired trans' (invoke manager (Call_index trans' default_deleted))"

definition FastAPIQuota_index_deleted ::
  "('cp, 'up, 'dp, 'r, 's) QuotasManager \<Rightarrow> ProvidesUserContext
     \<Rightarrow> ('cp, 'up, 'dp, 's) world \<Rightarrow> ('cp, 'up, 'dp, 'r, 's) outcome" where
  "FastAPIQuota_index_deleted manager trans' =
     AdminUserRequired trans' (invoke manager (Call_index trans' True))"

definition FastAPIQuota_show ::
  "('cp, 'up, 'dp, 'r, 's) QuotasManager \<Rightarrow> ProvidesUserContext \<Rightarrow> encoded_id
     \<Rightarrow> ('cp, 'up, 'dp, 's) world \<Rightarrow> ('cp, 'up, 'dp, 'r, 's) outcome" where
  "FastAPIQuota_show manager trans' id' =
     AdminUserRequired trans' (invoke manager (Call_show trans' id' default_deleted))"

definition FastAPIQuota_show_deleted ::
  "('cp, 'up, 'dp, 'r, 's) QuotasManager \<Rightarrow> ProvidesUserContext \<Rightarrow> encoded_id
     \<Rightarrow> ('cp, 'up, 'dp, 's) world \<Rightarrow> ('cp, 'up, 'dp, 'r, 's) outcome" where
  "FastAPIQuota_show_deleted manager trans' id' =
     AdminUserRequired trans' (invoke manager (Call_show trans' id' True))"

definition FastAPIQuota_create ::
  "('cp, 'up, 'dp, 'r, 's) QuotasManager \<Rightarrow> 'cp \<Rightarrow> ProvidesUserContext
     \<Rightarrow> ('cp, 'up, 'dp, 's) world \<Rightarrow> ('cp, 'up, 'dp, 'r, 's) outcome" where
  "FastAPIQuota_create manager payload trans' =
     AdminUserRequired trans' (invoke manager (Call_create trans' payload))"

definition FastAPIQuota_update ::
  "('cp, 'up, 'dp, 'r, 's) QuotasManager \<Rightarrow> 'up \<Rightarrow> encoded_id \<Rightarrow> ProvidesUserContext
     \<Rightarrow> ('cp, 'up, 'dp, 's) world \<Rightarrow> ('cp, 'up, 'dp, 'r, 's) outcome" where
  "FastAPIQuota_update manager payload id' trans' =
     AdminUserRequired trans' (invoke manager (Call_update trans' id' payload))"

definition FastAPIQuota_delete ::
  "('cp, 'up, 'dp, 'r, 's) QuotasManager \<Rightarrow> encoded_id \<Rightarrow> ProvidesUserContext
     \<Rightarrow> 'dp option \<Rightarrow> ('cp, 'up, 'dp, 's) world \<Rightarrow> ('cp, 'up, 'dp, 'r, 's) outcome" where
  "FastAPIQuota_delete manager id' trans' payload =
     AdminUserRequired trans' (invoke manager (Call_delete trans' id' payload))"

definition FastAPIQuota_undelete ::
  "('cp, 'up, 'dp, 'r, 's) QuotasManager \<Rightarrow> encoded_id \<Rightarrow> ProvidesUserContext
     \<Rightarrow> ('cp, 'up, 'dp, 's) world \<Rightarrow> ('cp, 'up, 'dp, 'r, 's) outcome" where
  "FastAPIQuota_undelete manager id' trans' =
     AdminUserRequired trans' (invoke manager (Call_undelete trans' id'))"

subsection \<open>Helpers of the legacy handlers\<close>

text \<open>
  Modelled from the spec: \<^verbatim>\<open>galaxy.util.string_as_bool\<close> is not part of the source
  under study. The spec: the flag "arrives as a string and must be parsed using conventional
  truthy-string rules (e.g., "true"/"1" \<rightarrow> true, case-insensitive; anything else \<rightarrow> false)
  rather than generic truthiness". Case is folded on the letters A to Z.
\<close>

definition lower_char :: "char \<Rightarrow> char" where
  "lower_char c =
     (case map_of (zip ''ABCDEFGHIJKLMNOPQRSTUVWXYZ'' ''abcdefghijklmnopqrstuvwxyz'') c of
        None \<Rightarrow> c
      | Some l \<Rightarrow> l)"

definition lower :: "string \<Rightarrow> string" where
  "lower s = map lower_char s"

definition string_as_bool :: "string \<Rightarrow> bool" where
  "string_as_bool s = (lower s = ''true'' \<or> lower s = ''1'')"

text \<open>
  \<^verbatim>\<open>C(**x)\<close> unpacks \<^verbatim>\<open>x\<close> into keyword arguments; Python raises \<^verbatim>\<open>TypeError\<close>
  when \<^verbatim>\<open>x\<close> is not a mapping.
\<close>

fun keyword_args :: "pyval \<Rightarrow> error + (string \<times> pyval) list" where
  "keyword_args (PDict d) = Inr d"
| "keyword_args _ = Inl TypeError"

text \<open>
  The classes \<^verbatim>\<open>CreateQuotaParams\<close>, \<^verbatim>\<open>UpdateQuotaParams\<close> and
  \<^verbatim>\<open>DeleteQuotaPayload\<close> are imported from \<^verbatim>\<open>galaxy.quota._schema\<close>, which is not
  part of the source under study: their constructors are parameters of the legacy handlers.
  A constructor takes the keyword arguments and returns the object or raises.
\<close>

record ('cp, 'up, 'dp) schema =
  CreateQuotaParams :: "(string \<times> pyval) list \<Rightarrow> error + 'cp"
  UpdateQuotaParams :: "(string \<times> pyval) list \<Rightarrow> error + 'up"
  DeleteQuotaPayload :: "(string \<times> pyval) list \<Rightarrow> error + 'dp"

text \<open>\<^verbatim>\<open>kwd.get('payload', {})\<close>, with \<^verbatim>\<open>kwd\<close> as the list of its items.\<close>

definition kwd_get_payload :: "(string \<times> pyval) list \<Rightarrow> pyval" where
  "kwd_get_payload kwd = (case map_of kwd ''payload'' of None \<Rightarrow> PDict [] | Some v \<Rightarrow> v)"

subsection \<open>The class \<^verbatim>\<open>QuotaAPIController\<close>\<close>

text \<open>
  Every handler is decorated \<^verbatim>\<open>@web.require_admin\<close> (outermost) and
  \<^verbatim>\<open>@web.expose_api\<close>. The second decorator belongs to the HTTP response layer (it
  decodes the request body into \<^verbatim>\<open>kwd['payload']\<close> and serialises what the handler
  returns) and is not part of the source under study; the handlers below start from the
  decoded arguments. The parameter \<^verbatim>\<open>deleted='False'\<close> is an option: \<open>None\<close> when the
  caller leaves it out, and the default applies.
\<close>

definition QuotaAPIController_index ::
  "('cp, 'up, 'dp, 'r, 's) QuotasManager \<Rightarrow> ProvidesUserContext \<Rightarrow> string option
     \<Rightarrow> (string \<times> pyval) list
     \<Rightarrow> ('cp, 'up, 'dp, 's) world \<Rightarrow> ('cp, 'up, 'dp, 'r, 's) outcome" where
  "QuotaAPIController_index manager trans' deleted kwd =
     require_admin trans'
       (let deleted = string_as_bool (case deleted of None \<Rightarrow> ''False'' | Some s \<Rightarrow> s)
        in invoke manager (Call_index trans' deleted))"

definition QuotaAPIController_show ::
  "('cp, 'up, 'dp, 'r, 's) QuotasManager \<Rightarrow> ProvidesUserContext \<Rightarrow> encoded_id
     \<Rightarrow> string option \<Rightarrow> (string \<times> pyval) list
     \<Rightarrow> ('cp, 'up, 'dp, 's) world \<Rightarrow> ('cp, 'up, 'dp, 'r, 's) outcome" where
  "QuotaAPIController_show manager trans' id' deleted kwd =
     require_admin trans'
       (let deleted = string_as_bool (case deleted of None \<Rightarrow> ''False'' | Some s \<Rightarrow> s)
        in invoke manager (Call_show trans' id' deleted))"

definition QuotaAPIController_create ::
  "('cp, 'up, 'dp) schema \<Rightarrow> ('cp, 'up, 'dp, 'r, 's) QuotasManager
     \<Rightarrow> ProvidesUserContext \<Rightarrow> pyval \<Rightarrow> (string \<times> pyval) list
     \<Rightarrow> ('cp, 'up, 'dp, 's) world \<Rightarrow> ('cp, 'up, 'dp, 'r, 's) outcome" where
  "QuotaAPIController_create sch manager trans' payload kwd =
     require_admin trans'
       (raising (keyword_args payload) (\<lambda>args.
        raising (CreateQuotaParams sch args) (\<lambda>params.
        invoke manager (Call_create trans' params))))"

definition QuotaAPIController_update ::
  "('cp, 'up, 'dp) schema \<Rightarrow> ('cp, 'up, 'dp, 'r, 's) QuotasManager
     \<Rightarrow> ProvidesUserContext \<Rightarrow> encoded_id \<Rightarrow> pyval \<Rightarrow> (string \<times> pyval) list
     \<Rightarrow> ('cp, 'up, 'dp, 's) world \<Rightarrow> ('cp, 'up, 'dp, 'r, 's) outcome" where
  "QuotaAPIController_update sch manager trans' id' payload kwd =
     require_admin trans'
       (raising (keyword_args payload) (\<lambda>args.
        raising (UpdateQuotaParams sch args) (\<lambda>params.
        invoke manager (Call_update trans' id' params))))"

definition QuotaAPIController_delete ::
  "('cp, 'up, 'dp) schema \<Rightarrow> ('cp, 'up, 'dp, 'r, 's) QuotasManager
     \<Rightarrow> ProvidesUserContext \<Rightarrow> encoded_id \<Rightarrow> (string \<times> pyval) list
     \<Rightarrow> ('cp, 'up, 'dp, 's) world \<Rightarrow> ('cp, 'up, 'dp, 'r, 's) outcome" where
  "QuotaAPIController_delete sch manager trans' id' kwd =
     require_admin trans'
       (raising (keyword_args (kwd_get_payload kwd)) (\<lambda>args.
        raising (DeleteQuotaPayload sch args) (\<lambda>payload.
        invoke manager (Call_delete trans' id' (Some payload)))))"

definition QuotaAPIController_undelete ::
  "('cp, 'up, 'dp, 'r, 's) QuotasManager \<Rightarrow> ProvidesUserContext \<Rightarrow> encoded_id
     \<Rightarrow> (string \<times> pyval) list
     \<Rightarrow> ('cp, 'up, 'dp, 's) world \<Rightarrow> ('cp, 'up, 'dp, 'r, 's) outcome" where
  "QuotaAPIController_undelete manager trans' id' kwd =
     require_admin trans' (invoke manager (Call_undelete trans' id'))"

subsection \<open>A typed route, from the request body\<close>

text \<open>
  Modelled from the spec: what brings a request to a typed handler (the web framework's
  binding of the body to the annotated parameter, and the dependency
  \<^verbatim>\<open>AdminUserRequired\<close> of the route) is not part of the source under study. The
  spec's control flow: "incoming request \<rightarrow> admin-authorization check \<rightarrow> path/body
  parameter extraction and coercion \<rightarrow> delegate to Quota Manager \<rightarrow> serialize returned
  value", and a malformed create or update payload is a ValidationError. A route that
  declares \<^verbatim>\<open>payload: CreateQuotaParams\<close> constructs that object from the decoded
  body; \<^verbatim>\<open>payload: DeleteQuotaPayload = Body(None)\<close> gives \<open>None\<close> when the request
  has no body. The body of the handler follows, as in the class above.
\<close>

definition body_as :: "((string \<times> pyval) list \<Rightarrow> error + 'a) \<Rightarrow> pyval \<Rightarrow> error + 'a" where
  "body_as construct body =
     (case body of PDict args \<Rightarrow> construct args | _ \<Rightarrow> Inl (ValidationError ''body''))"

definition optional_body_as ::
  "((string \<times> pyval) list \<Rightarrow> error + 'a) \<Rightarrow> pyval option \<Rightarrow> error + 'a option" where
  "optional_body_as construct body =
     (case body of
        None \<Rightarrow> Inr None
      | Some b \<Rightarrow> (case body_as construct b of Inl e \<Rightarrow> Inl e | Inr p \<Rightarrow> Inr (Some p)))"

definition FastAPIQuota_create_request ::
  "('cp, 'up, 'dp) schema \<Rightarrow> ('cp, 'up, 'dp, 'r, 's) QuotasManager \<Rightarrow> pyval
     \<Rightarrow> ProvidesUserContext
     \<Rightarrow> ('cp, 'up, 'dp, 's) world \<Rightarrow> ('cp, 'up, 'dp, 'r, 's) outcome" where
  "FastAPIQuota_create_request sch manager body trans' =
     AdminUserRequired trans'
       (raising (body_as (CreateQuotaParams sch) body) (\<lambda>payload.
        invoke manager (Call_create trans' payload)))"

definition FastAPIQuota_update_request ::
  "('cp, 'up, 'dp) schema \<Rightarrow> ('cp, 'up, 'dp, 'r, 's) QuotasManager \<Rightarrow> pyval
     \<Rightarrow> encoded_id \<Rightarrow> ProvidesUserContext
     \<Rightarrow> ('cp, 'up, 'dp, 's) world \<Rightarrow> ('cp, 'up, 'dp, 'r, 's) outcome" where
  "FastAPIQuota_update_request sch manager body id' trans' =
     AdminUserRequired trans'
       (raising (body_as (UpdateQuotaParams sch) body) (\<lambda>payload.
        invoke manager (Call_update trans' id' payload)))"

definition FastAPIQuota_delete_request ::
  "('cp, 'up, 'dp) schema \<Rightarrow> ('cp, 'up, 'dp, 'r, 's) QuotasManager \<Rightarrow> encoded_id
     \<Rightarrow> ProvidesUserContext \<Rightarrow> pyval option
     \<Rightarrow> ('cp, 'up, 'dp, 's) world \<Rightarrow> ('cp, 'up, 'dp, 'r, 's) outcome" where
  "FastAPIQuota_delete_request sch manager id' trans' body =
     AdminUserRequired trans'
       (raising (optional_body_as (DeleteQuotaPayload sch) body) (\<lambda>payload.
        invoke manager (Call_delete trans' id' payload)))"

subsection \<open>A sample schema and a sample manager\<close>

text \<open>
  Modelled from the spec: neither \<^verbatim>\<open>galaxy.quota._schema\<close> nor
  \<^verbatim>\<open>galaxy.managers.quotas\<close> is part of the source under study. The theorems below hold
  for every schema and every manager; the instance here serves to evaluate them at concrete
  requests. It follows the spec's words: a quota has an identifier, a name and a soft-delete
  flag; "create with a missing required field fails with ValidationError" and returns "a
  result containing the same quota name supplied in the payload"; the delete payload "may
  be absent (defaults to an empty/default payload)"; listing and showing see the quotas
  whose flag is the one asked for, "NotFound if id unknown or not active" (respectively not
  deleted); delete marks a quota deleted, undelete restores it, "NotFound/ConflictError if
  not currently deleted"; update, delete and undelete return a status string. The spec does
  not say how identifiers are allocated: the sample uses the name.
\<close>

definition sample_schema :: "(string, string option, unit) schema" where
  "sample_schema =
     \<lparr> CreateQuotaParams =
         (\<lambda>args. case map_of args ''name'' of
                    Some (PStr n) \<Rightarrow> Inr n
                  | _ \<Rightarrow> Inl (ValidationError ''name'')),
       UpdateQuotaParams =
         (\<lambda>args. case map_of args ''name'' of
                    None \<Rightarrow> Inr None
                  | Some (PStr n) \<Rightarrow> Inr (Some n)
                  | Some _ \<Rightarrow> Inl (ValidationError ''name'')),
       DeleteQuotaPayload = (\<lambda>args. Inr ()) \<rparr>"

record quota =
  quota_id :: encoded_id
  quota_name :: string
  quota_deleted :: bool

datatype response =
    QuotaSummaryList "quota list"
  | QuotaDetails quota
  | CreateQuotaResult quota
  | Status string

definition has_quota :: "encoded_id \<Rightarrow> bool \<Rightarrow> quota list \<Rightarrow> bool" where
  "has_quota i d qs = (find (\<lambda>q. quota_id q = i \<and> quota_deleted q = d) qs \<noteq> None)"

definition set_deleted :: "encoded_id \<Rightarrow> bool \<Rightarrow> quota list \<Rightarrow> quota list" where
  "set_deleted i d qs = map (\<lambda>q. if quota_id q = i then q\<lparr>quota_deleted := d\<rparr> else q) qs"

definition rename :: "encoded_id \<Rightarrow> string option \<Rightarrow> quota list \<Rightarrow> quota list" where
  "rename i n qs =
     (case n of
        None \<Rightarrow> qs
      | Some n' \<Rightarrow> map (\<lambda>q. if quota_id q = i then q\<lparr>quota_name := n'\<rparr> else q) qs)"

fun sample_manager ::
  "(string, string option, unit, response, quota list) QuotasManager" where
  "sample_manager (Call_index t d) qs =
     (Inr (QuotaSummaryList (filter (\<lambda>q. quota_deleted q = d) qs)), qs)"
| "sample_manager (Call_show t i d) qs =
     (case find (\<lambda>q. quota_id q = i \<and> quota_deleted q = d) qs of
        None \<Rightarrow> (Inl NotFoundError, qs)
      | Some q \<Rightarrow> (Inr (QuotaDetails q), qs))"
| "sample_manager (Call_create t n) qs =
     (if has_quota n False qs \<or> has_quota n True qs then (Inl ConflictError, qs)
      else (let q = \<lparr>quota_id = n, quota_name = n, quota_deleted = False\<rparr>
            in (Inr (CreateQuotaResult q), qs @ [q])))"
| "sample_manager (Call_update t i n) qs =
     (if has_quota i False qs then (Inr (Status ''updated''), rename i n qs)
      else (Inl NotFoundError, qs))"
| "sample_manager (Call_delete t i p) qs =
     (if has_quota i False qs then (Inr (Status ''deleted''), set_deleted i True qs)
      else (Inl NotFoundError, qs))"
| "sample_manager (Call_undelete t i) qs =
     (if has_quota i True qs then (Inr (Status ''undeleted''), set_deleted i False qs)
      else if has_quota i False qs then (Inl ConflictError, qs)
      else (Inl NotFoundError, qs))"

text \<open>An administrator, another caller, and a store with one active and one deleted quota.\<close>

definition admin :: ProvidesUserContext where
  "admin = \<lparr>user_is_admin = True\<rparr>"

definition visitor :: ProvidesUserContext where
  "visitor = \<lparr>user_is_admin = False\<rparr>"

definition q_active :: quota where
  "q_active = \<lparr>quota_id = ''a1'', quota_name = ''small'', quota_deleted = False\<rparr>"

definition q_gone :: quota where
  "q_gone = \<lparr>quota_id = ''d2'', quota_name = ''old'', quota_deleted = True\<rparr>"

definition w0 :: "(string, string option, unit, quota list) world" where
  "w0 = \<lparr>store = [q_active, q_gone], calls = []\<rparr>"

section \<open>Properties\<close>

subsection \<open>What one manager call leaves behind\<close>

lemma fst_invoke: "fst (invoke manager c w) = fst (manager c (store w))"
  by (simp add: invoke_def split: prod.splits)

lemma store_invoke: "store (snd (invoke manager c w)) = snd (manager c (store w))"
  by (simp add: invoke_def split: prod.splits)

lemma calls_invoke: "calls (snd (invoke manager c w)) = calls w @ [c]"
  by (simp add: invoke_def split: prod.splits)

lemma invoke_applies:
  "invoke manager c w
     = (fst (manager c (store w)),
        \<lparr>store = snd (manager c (store w)), calls = calls w @ [c]\<rparr>)"
  by (simp add: invoke_def split: prod.splits)

lemma invoke_error:
  "manager c (store w) = (Inl e, s') \<Longrightarrow>
   invoke manager c w = (Inl e, \<lparr>store = s', calls = calls w @ [c]\<rparr>)"
  by (simp add: invoke_def)

subsection \<open>The gate, open and closed\<close>

lemma AdminUserRequired_admin:
  "user_is_admin trans' \<Longrightarrow> AdminUserRequired trans' body w = body w"
  by (simp add: AdminUserRequired_def)

lemma AdminUserRequired_denied:
  "\<not> user_is_admin trans' \<Longrightarrow> AdminUserRequired trans' body w = (Inl AuthorizationError, w)"
  by (simp add: AdminUserRequired_def)

lemma require_admin_admin:
  "user_is_admin trans' \<Longrightarrow> require_admin trans' body w = body w"
  by (simp add: require_admin_def)

lemma require_admin_denied:
  "\<not> user_is_admin trans' \<Longrightarrow> require_admin trans' body w = (Inl AuthorizationError, w)"
  by (simp add: require_admin_def)

lemmas FastAPIQuota_defs =
  FastAPIQuota_index_def FastAPIQuota_index_deleted_def FastAPIQuota_show_def
  FastAPIQuota_show_deleted_def FastAPIQuota_create_def FastAPIQuota_update_def
  FastAPIQuota_delete_def FastAPIQuota_undelete_def

lemmas QuotaAPIController_defs =
  QuotaAPIController_index_def QuotaAPIController_show_def QuotaAPIController_create_def
  QuotaAPIController_update_def QuotaAPIController_delete_def
  QuotaAPIController_undelete_def

lemma raising_Inl: "raising (Inl e) k w = (Inl e, w)"
  by (simp add: raising_def)

lemma raising_Inr: "raising (Inr a) k w = k a w"
  by (simp add: raising_def)

lemma FastAPIQuota_request_bound:
  "body_as (CreateQuotaParams sch) body = Inr cp \<Longrightarrow>
     FastAPIQuota_create_request sch manager body trans' w
       = FastAPIQuota_create manager cp trans' w"
  "body_as (UpdateQuotaParams sch) body = Inr up \<Longrightarrow>
     FastAPIQuota_update_request sch manager body id' trans' w
       = FastAPIQuota_update manager up id' trans' w"
  "optional_body_as (DeleteQuotaPayload sch) obody = Inr dp \<Longrightarrow>
     FastAPIQuota_delete_request sch manager id' trans' obody w
       = FastAPIQuota_delete manager id' trans' dp w"
  by (simp_all add: FastAPIQuota_create_request_def FastAPIQuota_update_request_def
      FastAPIQuota_delete_request_def FastAPIQuota_defs AdminUserRequired_def raising_Inr)

lemmas FastAPIQuota_request_defs =
  FastAPIQuota_create_request_def FastAPIQuota_update_request_def
  FastAPIQuota_delete_request_def

subsection \<open>Case folding\<close>

lemma lower_char_other:
  assumes "c \<notin> set ''ABCDEFGHIJKLMNOPQRSTUVWXYZ''"
  shows "lower_char c = c"
proof -
  have "map_of (zip ''ABCDEFGHIJKLMNOPQRSTUVWXYZ'' ''abcdefghijklmnopqrstuvwxyz'') c = None"
    by (subst map_of_zip_is_None) (use assms in simp_all)
  then show ?thesis
    unfolding lower_char_def by (simp only: option.case)
qed

lemma lower_char_upper:
  assumes "c \<in> set ''ABCDEFGHIJKLMNOPQRSTUVWXYZ''"
  shows "lower_char c \<in> set ''abcdefghijklmnopqrstuvwxyz''
       \<and> (lower_char c = CHR ''t'' \<longleftrightarrow> c = CHR ''T'')
       \<and> (lower_char c = CHR ''r'' \<longleftrightarrow> c = CHR ''R'')
       \<and> (lower_char c = CHR ''u'' \<longleftrightarrow> c = CHR ''U'')
       \<and> (lower_char c = CHR ''e'' \<longleftrightarrow> c = CHR ''E'')"
proof -
  from assms have
    "c = CHR ''A'' \<or> c = CHR ''B'' \<or> c = CHR ''C'' \<or> c = CHR ''D'' \<or> c = CHR ''E''
     \<or> c = CHR ''F'' \<or> c = CHR ''G'' \<or> c = CHR ''H'' \<or> c = CHR ''I'' \<or> c = CHR ''J''
     \<or> c = CHR ''K'' \<or> c = CHR ''L'' \<or> c = CHR ''M'' \<or> c = CHR ''N'' \<or> c = CHR ''O''
     \<or> c = CHR ''P'' \<or> c = CHR ''Q'' \<or> c = CHR ''R'' \<or> c = CHR ''S'' \<or> c = CHR ''T''
     \<or> c = CHR ''U'' \<or> c = CHR ''V'' \<or> c = CHR ''W'' \<or> c = CHR ''X'' \<or> c = CHR ''Y''
     \<or> c = CHR ''Z''"
    by simp
  then show ?thesis
    by (elim disjE) (simp_all add: lower_char_def)
qed


lemma lower_char_letters:
  "(lower_char c = CHR ''t'') = (c = CHR ''t'' \<or> c = CHR ''T'')
   \<and> (lower_char c = CHR ''r'') = (c = CHR ''r'' \<or> c = CHR ''R'')
   \<and> (lower_char c = CHR ''u'') = (c = CHR ''u'' \<or> c = CHR ''U'')
   \<and> (lower_char c = CHR ''e'') = (c = CHR ''e'' \<or> c = CHR ''E'')
   \<and> (lower_char c = CHR ''1'') = (c = CHR ''1'')"
proof (cases "c \<in> set ''ABCDEFGHIJKLMNOPQRSTUVWXYZ''")
  case True
  have low: "lower_char c \<in> set ''abcdefghijklmnopqrstuvwxyz''"
    using lower_char_upper [OF True] by (rule conjunct1)
  have a: "CHR ''t'' \<notin> set ''ABCDEFGHIJKLMNOPQRSTUVWXYZ''"
      "CHR ''r'' \<notin> set ''ABCDEFGHIJKLMNOPQRSTUVWXYZ''"
      "CHR ''u'' \<notin> set ''ABCDEFGHIJKLMNOPQRSTUVWXYZ''"
      "CHR ''e'' \<notin> set ''ABCDEFGHIJKLMNOPQRSTUVWXYZ''"
      "CHR ''1'' \<notin> set ''ABCDEFGHIJKLMNOPQRSTUVWXYZ''"
      "CHR ''1'' \<notin> set ''abcdefghijklmnopqrstuvwxyz''"
    by simp_all
  have ne: "c \<noteq> CHR ''t''" "c \<noteq> CHR ''r''" "c \<noteq> CHR ''u''" "c \<noteq> CHR ''e''" "c \<noteq> CHR ''1''"
    using True a by blast+
  have ne1: "lower_char c \<noteq> CHR ''1''"
    using low a(6) by metis
  show ?thesis
    using lower_char_upper [OF True] by (simp only: ne ne1 simp_thms)
next
  case False
  have a: "CHR ''T'' \<in> set ''ABCDEFGHIJKLMNOPQRSTUVWXYZ''"
      "CHR ''R'' \<in> set ''ABCDEFGHIJKLMNOPQRSTUVWXYZ''"
      "CHR ''U'' \<in> set ''ABCDEFGHIJKLMNOPQRSTUVWXYZ''"
      "CHR ''E'' \<in> set ''ABCDEFGHIJKLMNOPQRSTUVWXYZ''"
    by simp_all
  have ne: "c \<noteq> CHR ''T''" "c \<noteq> CHR ''R''" "c \<noteq> CHR ''U''" "c \<noteq> CHR ''E''"
    using False a by blast+
  show ?thesis
    by (simp only: lower_char_other [OF False] ne simp_thms)
qed


lemma lower_eq_Nil: "lower s = [] \<longleftrightarrow> s = []"
  by (simp add: lower_def)

lemma lower_eq_Cons:
  "lower s = y # ys \<longleftrightarrow> (\<exists>z zs. s = z # zs \<and> lower_char z = y \<and> lower zs = ys)"
  by (simp add: lower_def map_eq_Cons_conv)

lemma lower_eq_true:
  "lower s = ''true'' \<longleftrightarrow>
     (\<exists>a b c d. s = [a, b, c, d]
        \<and> (a = CHR ''t'' \<or> a = CHR ''T'') \<and> (b = CHR ''r'' \<or> b = CHR ''R'')
        \<and> (c = CHR ''u'' \<or> c = CHR ''U'') \<and> (d = CHR ''e'' \<or> d = CHR ''E''))"
proof
  assume "lower s = ''true''"
  then obtain a s1 where 1: "s = a # s1" "lower_char a = CHR ''t''" "lower s1 = ''rue''"
    unfolding lower_eq_Cons by blast
  from 1(3) obtain b s2 where 2: "s1 = b # s2" "lower_char b = CHR ''r''" "lower s2 = ''ue''"
    unfolding lower_eq_Cons by blast
  from 2(3) obtain c s3 where 3: "s2 = c # s3" "lower_char c = CHR ''u''" "lower s3 = ''e''"
    unfolding lower_eq_Cons by blast
  from 3(3) obtain d s4 where 4: "s3 = d # s4" "lower_char d = CHR ''e''" "lower s4 = []"
    unfolding lower_eq_Cons by blast
  have "s = [a, b, c, d]"
    using 1(1) 2(1) 3(1) 4(1) 4(3) by (simp add: lower_eq_Nil)
  moreover have "a = CHR ''t'' \<or> a = CHR ''T''" using 1(2) lower_char_letters [of a] by blast
  moreover have "b = CHR ''r'' \<or> b = CHR ''R''" using 2(2) lower_char_letters [of b] by blast
  moreover have "c = CHR ''u'' \<or> c = CHR ''U''" using 3(2) lower_char_letters [of c] by blast
  moreover have "d = CHR ''e'' \<or> d = CHR ''E''" using 4(2) lower_char_letters [of d] by blast
  ultimately show "\<exists>a b c d. s = [a, b, c, d]
        \<and> (a = CHR ''t'' \<or> a = CHR ''T'') \<and> (b = CHR ''r'' \<or> b = CHR ''R'')
        \<and> (c = CHR ''u'' \<or> c = CHR ''U'') \<and> (d = CHR ''e'' \<or> d = CHR ''E'')"
    by blast
next
  assume "\<exists>a b c d. s = [a, b, c, d]
        \<and> (a = CHR ''t'' \<or> a = CHR ''T'') \<and> (b = CHR ''r'' \<or> b = CHR ''R'')
        \<and> (c = CHR ''u'' \<or> c = CHR ''U'') \<and> (d = CHR ''e'' \<or> d = CHR ''E'')"
  then obtain a b c d where s: "s = [a, b, c, d]"
    and l: "a = CHR ''t'' \<or> a = CHR ''T''" "b = CHR ''r'' \<or> b = CHR ''R''"
      "c = CHR ''u'' \<or> c = CHR ''U''" "d = CHR ''e'' \<or> d = CHR ''E''"
    by blast
  have "lower_char a = CHR ''t''" using l(1) lower_char_letters [of a] by blast
  moreover have "lower_char b = CHR ''r''" using l(2) lower_char_letters [of b] by blast
  moreover have "lower_char c = CHR ''u''" using l(3) lower_char_letters [of c] by blast
  moreover have "lower_char d = CHR ''e''" using l(4) lower_char_letters [of d] by blast
  ultimately show "lower s = ''true''"
    by (simp add: s lower_def)
qed

lemma lower_eq_one: "lower s = ''1'' \<longleftrightarrow> s = ''1''"
proof
  assume "lower s = ''1''"
  then obtain a s1 where 1: "s = a # s1" "lower_char a = CHR ''1''" "lower s1 = []"
    unfolding lower_eq_Cons by blast
  have "a = CHR ''1''" using 1(2) lower_char_letters [of a] by blast
  then show "s = ''1''" using 1(1) 1(3) by (simp add: lower_eq_Nil)
next
  assume "s = ''1''"
  moreover have "lower_char CHR ''1'' = CHR ''1''"
    using lower_char_letters [of "CHR ''1''"] by blast
  ultimately show "lower s = ''1''" by (simp add: lower_def)
qed

lemma string_as_bool_iff:
  "string_as_bool s \<longleftrightarrow>
     (\<exists>a b c d. s = [a, b, c, d]
        \<and> (a = CHR ''t'' \<or> a = CHR ''T'') \<and> (b = CHR ''r'' \<or> b = CHR ''R'')
        \<and> (c = CHR ''u'' \<or> c = CHR ''U'') \<and> (d = CHR ''e'' \<or> d = CHR ''E''))
     \<or> s = ''1''"
  unfolding string_as_bool_def lower_eq_true lower_eq_one ..

subsection \<open>Each handler, called by an administrator\<close>

lemma FastAPIQuota_admin:
  assumes "user_is_admin trans'"
  shows "FastAPIQuota_index manager trans' w = invoke manager (Call_index trans' False) w"
    and "FastAPIQuota_index_deleted manager trans' w
           = invoke manager (Call_index trans' True) w"
    and "FastAPIQuota_show manager trans' id' w
           = invoke manager (Call_show trans' id' False) w"
    and "FastAPIQuota_show_deleted manager trans' id' w
           = invoke manager (Call_show trans' id' True) w"
    and "FastAPIQuota_create manager cp trans' w = invoke manager (Call_create trans' cp) w"
    and "FastAPIQuota_update manager up id' trans' w
           = invoke manager (Call_update trans' id' up) w"
    and "FastAPIQuota_delete manager id' trans' dp w
           = invoke manager (Call_delete trans' id' dp) w"
    and "FastAPIQuota_undelete manager id' trans' w
           = invoke manager (Call_undelete trans' id') w"
  using assms
  by (simp_all add: FastAPIQuota_defs AdminUserRequired_admin default_deleted_def)

lemma QuotaAPIController_admin:
  assumes "user_is_admin trans'"
  shows "QuotaAPIController_index manager trans' (Some s) kwd w
           = invoke manager (Call_index trans' (string_as_bool s)) w"
    and "QuotaAPIController_index manager trans' None kwd w
           = invoke manager (Call_index trans' (string_as_bool ''False'')) w"
    and "QuotaAPIController_show manager trans' id' (Some s) kwd w
           = invoke manager (Call_show trans' id' (string_as_bool s)) w"
    and "QuotaAPIController_show manager trans' id' None kwd w
           = invoke manager (Call_show trans' id' (string_as_bool ''False'')) w"
    and "QuotaAPIController_create sch manager trans' payload kwd w
           = raising (keyword_args payload) (\<lambda>args.
             raising (CreateQuotaParams sch args) (\<lambda>params.
             invoke manager (Call_create trans' params))) w"
    and "QuotaAPIController_update sch manager trans' id' payload kwd w
           = raising (keyword_args payload) (\<lambda>args.
             raising (UpdateQuotaParams sch args) (\<lambda>params.
             invoke manager (Call_update trans' id' params))) w"
    and "QuotaAPIController_delete sch manager trans' id' kwd w
           = raising (keyword_args (kwd_get_payload kwd)) (\<lambda>args.
             raising (DeleteQuotaPayload sch args) (\<lambda>payload.
             invoke manager (Call_delete trans' id' (Some payload)))) w"
    and "QuotaAPIController_undelete manager trans' id' kwd w
           = invoke manager (Call_undelete trans' id') w"
  using assms
  by (simp_all add: QuotaAPIController_defs require_admin_admin)

lemma string_as_bool_False: "\<not> string_as_bool ''False''"
  by (simp add: string_as_bool_iff)

subsection \<open>The sample instance, evaluated\<close>

lemma admin_is_admin: "user_is_admin admin"
  by (simp add: admin_def)

lemma visitor_not_admin: "\<not> user_is_admin visitor"
  by (simp add: visitor_def)

lemma store_w0: "store w0 = [q_active, q_gone]"
  by (simp add: w0_def)

lemma calls_w0: "calls w0 = []"
  by (simp add: w0_def)

subsection \<open>C1: the administrator gate\<close>

text \<open>
  C1. For every operation of both classes, a caller without administrator privilege gets
  the authorization failure, and the world is what it was: the store is untouched and no
  call reaches the manager. The gate comes before any coercion of a parameter, on both
  surfaces: the payload of the legacy \<^verbatim>\<open>create\<close>, \<^verbatim>\<open>update\<close> and \<^verbatim>\<open>delete\<close> is
  arbitrary, and so is the request body of the typed \<^verbatim>\<open>create\<close>, \<^verbatim>\<open>update\<close> and
  \<^verbatim>\<open>delete\<close> routes, so a malformed payload or body gives the authorization failure
  too, not a validation error.
\<close>

theorem non_admin_rejected:
  assumes "\<not> user_is_admin trans'"
  shows "FastAPIQuota_index manager trans' w = (Inl AuthorizationError, w)
       \<and> FastAPIQuota_index_deleted manager trans' w = (Inl AuthorizationError, w)
       \<and> FastAPIQuota_show manager trans' id' w = (Inl AuthorizationError, w)
       \<and> FastAPIQuota_show_deleted manager trans' id' w = (Inl AuthorizationError, w)
       \<and> FastAPIQuota_create manager cp trans' w = (Inl AuthorizationError, w)
       \<and> FastAPIQuota_update manager up id' trans' w = (Inl AuthorizationError, w)
       \<and> FastAPIQuota_delete manager id' trans' dp w = (Inl AuthorizationError, w)
       \<and> FastAPIQuota_undelete manager id' trans' w = (Inl AuthorizationError, w)
       \<and> QuotaAPIController_index manager trans' deleted kwd w = (Inl AuthorizationError, w)
       \<and> QuotaAPIController_show manager trans' id' deleted kwd w = (Inl AuthorizationError, w)
       \<and> QuotaAPIController_create sch manager trans' payload kwd w
           = (Inl AuthorizationError, w)
       \<and> QuotaAPIController_update sch manager trans' id' payload kwd w
           = (Inl AuthorizationError, w)
       \<and> QuotaAPIController_delete sch manager trans' id' kwd w = (Inl AuthorizationError, w)
       \<and> QuotaAPIController_undelete manager trans' id' kwd w = (Inl AuthorizationError, w)
       \<and> FastAPIQuota_create_request sch manager body trans' w = (Inl AuthorizationError, w)
       \<and> FastAPIQuota_update_request sch manager body id' trans' w
           = (Inl AuthorizationError, w)
       \<and> FastAPIQuota_delete_request sch manager id' trans' obody w
           = (Inl AuthorizationError, w)"
  using assms
  by (simp add: FastAPIQuota_defs QuotaAPIController_defs FastAPIQuota_request_defs
      AdminUserRequired_denied require_admin_denied)

theorem non_admin_rejected_witness:
  "\<not> user_is_admin visitor
   \<and> FastAPIQuota_index sample_manager visitor w0 = (Inl AuthorizationError, w0)
   \<and> FastAPIQuota_delete sample_manager ''a1'' visitor None w0 = (Inl AuthorizationError, w0)
   \<and> QuotaAPIController_create sample_schema sample_manager visitor PNone [] w0
       = (Inl AuthorizationError, w0)
   \<and> QuotaAPIController_delete sample_schema sample_manager visitor ''a1''
       [(''payload'', PInt 3)] w0 = (Inl AuthorizationError, w0)
   \<and> body_as (CreateQuotaParams sample_schema) (PDict []) = Inl (ValidationError ''name'')
   \<and> FastAPIQuota_create_request sample_schema sample_manager (PDict []) visitor w0
       = (Inl AuthorizationError, w0)
   \<and> FastAPIQuota_update_request sample_schema sample_manager (PInt 3) ''a1'' visitor w0
       = (Inl AuthorizationError, w0)
   \<and> FastAPIQuota_delete_request sample_schema sample_manager ''a1'' visitor (Some PNone) w0
       = (Inl AuthorizationError, w0)
   \<and> calls w0 = []"
proof -
  have b: "body_as (CreateQuotaParams sample_schema) (PDict []) = Inl (ValidationError ''name'')"
    by (simp add: body_as_def sample_schema_def)
  note A = non_admin_rejected [OF visitor_not_admin, of sample_manager w0 "''a1''" "''x''" None
      None None "[(''payload'', PInt 3)]" sample_schema PNone "PDict []" "Some PNone"]
  note B = non_admin_rejected [OF visitor_not_admin, of sample_manager w0 "''a1''" "''x''" None
      None None "[]" sample_schema PNone "PInt 3" "Some PNone"]
  show ?thesis
    using A B b by (simp add: visitor_not_admin calls_w0)
qed

subsection \<open>C4: the \<^verbatim>\<open>deleted\<close> parameter of the legacy handlers\<close>

text \<open>
  C4. The legacy \<^verbatim>\<open>index\<close> and \<^verbatim>\<open>show\<close> pass to the manager the flag
  \<^verbatim>\<open>string_as_bool(deleted)\<close>. That flag is true exactly when the string is "true" in
  any casing (each of its four letters in lower or upper case) or is "1"; every other
  string gives false, the non-empty "False" included, and so does a request without the
  parameter, whose default is the string "False".
\<close>

theorem legacy_deleted_coercion:
  assumes "user_is_admin trans'"
  shows "QuotaAPIController_index manager trans' (Some s) kwd w
           = invoke manager (Call_index trans' (string_as_bool s)) w
       \<and> QuotaAPIController_show manager trans' id' (Some s) kwd w
           = invoke manager (Call_show trans' id' (string_as_bool s)) w
       \<and> (string_as_bool s \<longleftrightarrow>
            (\<exists>a b c d. s = [a, b, c, d]
               \<and> (a = CHR ''t'' \<or> a = CHR ''T'') \<and> (b = CHR ''r'' \<or> b = CHR ''R'')
               \<and> (c = CHR ''u'' \<or> c = CHR ''U'') \<and> (d = CHR ''e'' \<or> d = CHR ''E''))
            \<or> s = ''1'')
       \<and> QuotaAPIController_index manager trans' None kwd w
           = invoke manager (Call_index trans' False) w
       \<and> QuotaAPIController_show manager trans' id' None kwd w
           = invoke manager (Call_show trans' id' False) w"
proof -
  have "string_as_bool s \<longleftrightarrow>
            (\<exists>a b c d. s = [a, b, c, d]
               \<and> (a = CHR ''t'' \<or> a = CHR ''T'') \<and> (b = CHR ''r'' \<or> b = CHR ''R'')
               \<and> (c = CHR ''u'' \<or> c = CHR ''U'') \<and> (d = CHR ''e'' \<or> d = CHR ''E''))
            \<or> s = ''1''"
    by (rule string_as_bool_iff)
  then show ?thesis
    using assms by (simp only: QuotaAPIController_admin string_as_bool_False simp_thms)
qed

theorem legacy_deleted_coercion_witness:
  "user_is_admin admin
   \<and> fst (QuotaAPIController_index sample_manager admin (Some ''True'') [] w0)
       = Inr (QuotaSummaryList [q_gone])
   \<and> fst (QuotaAPIController_index sample_manager admin (Some ''tRUE'') [] w0)
       = Inr (QuotaSummaryList [q_gone])
   \<and> fst (QuotaAPIController_index sample_manager admin (Some ''1'') [] w0)
       = Inr (QuotaSummaryList [q_gone])
   \<and> fst (QuotaAPIController_index sample_manager admin (Some ''False'') [] w0)
       = Inr (QuotaSummaryList [q_active])
   \<and> fst (QuotaAPIController_index sample_manager admin (Some ''false'') [] w0)
       = Inr (QuotaSummaryList [q_active])
   \<and> fst (QuotaAPIController_index sample_manager admin (Some '''') [] w0)
       = Inr (QuotaSummaryList [q_active])
   \<and> fst (QuotaAPIController_index sample_manager admin None [] w0)
       = Inr (QuotaSummaryList [q_active])
   \<and> fst (QuotaAPIController_show sample_manager admin ''d2'' (Some ''TRUE'') [] w0)
       = Inr (QuotaDetails q_gone)"
  using legacy_deleted_coercion [OF admin_is_admin, of sample_manager "''True''" "[]" w0 "''d2''"]
    legacy_deleted_coercion [OF admin_is_admin, of sample_manager "''tRUE''" "[]" w0 "''d2''"]
    legacy_deleted_coercion [OF admin_is_admin, of sample_manager "''1''" "[]" w0 "''d2''"]
    legacy_deleted_coercion [OF admin_is_admin, of sample_manager "''False''" "[]" w0 "''d2''"]
    legacy_deleted_coercion [OF admin_is_admin, of sample_manager "''false''" "[]" w0 "''d2''"]
    legacy_deleted_coercion [OF admin_is_admin, of sample_manager "''''" "[]" w0 "''d2''"]
    legacy_deleted_coercion [OF admin_is_admin, of sample_manager "''TRUE''" "[]" w0 "''d2''"]
  by (simp add: admin_is_admin fst_invoke store_w0 q_active_def q_gone_def)

subsection \<open>C5: the two listings\<close>

text \<open>
  C5. For every request of an administrator, the active listing is one call of the
  manager's \<^verbatim>\<open>index\<close> with the deleted flag false and the deleted listing is one call
  with the flag true, on both classes (for the legacy handler, according to what its
  \<^verbatim>\<open>deleted\<close> string coerces to, false when it is left out). What the caller gets is
  what the manager returned for that flag, so a manager that filters by the flag never
  shows a deleted quota in the active listing, nor an active one in the deleted listing.
\<close>

theorem listing_delegates_flag:
  assumes "user_is_admin trans'"
  shows "FastAPIQuota_index manager trans' w = invoke manager (Call_index trans' False) w
       \<and> FastAPIQuota_index_deleted manager trans' w
           = invoke manager (Call_index trans' True) w
       \<and> QuotaAPIController_index manager trans' None kwd w
           = invoke manager (Call_index trans' False) w
       \<and> (\<not> string_as_bool s \<longrightarrow>
            QuotaAPIController_index manager trans' (Some s) kwd w
              = invoke manager (Call_index trans' False) w)
       \<and> (string_as_bool s \<longrightarrow>
            QuotaAPIController_index manager trans' (Some s) kwd w
              = invoke manager (Call_index trans' True) w)
       \<and> fst (FastAPIQuota_index manager trans' w)
           = fst (manager (Call_index trans' False) (store w))
       \<and> fst (FastAPIQuota_index_deleted manager trans' w)
           = fst (manager (Call_index trans' True) (store w))"
  using assms
  by (simp add: FastAPIQuota_admin QuotaAPIController_admin string_as_bool_False fst_invoke)

theorem listing_delegates_flag_witness:
  "user_is_admin admin
   \<and> FastAPIQuota_index sample_manager admin w0
       = (Inr (QuotaSummaryList [q_active]),
          \<lparr>store = [q_active, q_gone], calls = [Call_index admin False]\<rparr>)
   \<and> FastAPIQuota_index_deleted sample_manager admin w0
       = (Inr (QuotaSummaryList [q_gone]),
          \<lparr>store = [q_active, q_gone], calls = [Call_index admin True]\<rparr>)
   \<and> QuotaAPIController_index sample_manager admin (Some ''no'') [] w0
       = (Inr (QuotaSummaryList [q_active]),
          \<lparr>store = [q_active, q_gone], calls = [Call_index admin False]\<rparr>)
   \<and> QuotaAPIController_index sample_manager admin (Some ''1'') [] w0
       = (Inr (QuotaSummaryList [q_gone]),
          \<lparr>store = [q_active, q_gone], calls = [Call_index admin True]\<rparr>)"
proof -
  have no: "\<not> string_as_bool ''no''" and one: "string_as_bool ''1''"
    by (simp_all add: string_as_bool_iff)
  have a: "invoke sample_manager (Call_index admin False) w0
       = (Inr (QuotaSummaryList [q_active]),
          \<lparr>store = [q_active, q_gone], calls = [Call_index admin False]\<rparr>)"
    by (simp add: invoke_def w0_def q_active_def q_gone_def)
  have d: "invoke sample_manager (Call_index admin True) w0
       = (Inr (QuotaSummaryList [q_gone]),
          \<lparr>store = [q_active, q_gone], calls = [Call_index admin True]\<rparr>)"
    by (simp add: invoke_def w0_def q_active_def q_gone_def)
  show ?thesis
    using listing_delegates_flag [OF admin_is_admin, of sample_manager w0 "[]" "''no''"]
      listing_delegates_flag [OF admin_is_admin, of sample_manager w0 "[]" "''1''"]
    by (simp add: admin_is_admin no one a d)
qed

subsection \<open>C6: showing one quota\<close>

text \<open>
  C6. For every quota identifier, show-active is one call of the manager's \<^verbatim>\<open>show\<close>
  with the deleted flag false and show-deleted one call with the flag true, on both
  classes. When the manager answers NotFound (as its contract says for a quota that is not
  in the state asked for), the handler's result is that NotFound, unchanged.
\<close>

theorem show_delegates_flag:
  assumes "user_is_admin trans'"
  shows "FastAPIQuota_show manager trans' id' w
           = invoke manager (Call_show trans' id' False) w
       \<and> FastAPIQuota_show_deleted manager trans' id' w
           = invoke manager (Call_show trans' id' True) w
       \<and> QuotaAPIController_show manager trans' id' None kwd w
           = invoke manager (Call_show trans' id' False) w
       \<and> (\<not> string_as_bool s \<longrightarrow>
            QuotaAPIController_show manager trans' id' (Some s) kwd w
              = invoke manager (Call_show trans' id' False) w)
       \<and> (string_as_bool s \<longrightarrow>
            QuotaAPIController_show manager trans' id' (Some s) kwd w
              = invoke manager (Call_show trans' id' True) w)
       \<and> (fst (manager (Call_show trans' id' False) (store w)) = Inl NotFoundError \<longrightarrow>
            fst (FastAPIQuota_show manager trans' id' w) = Inl NotFoundError
            \<and> fst (QuotaAPIController_show manager trans' id' None kwd w) = Inl NotFoundError)
       \<and> (fst (manager (Call_show trans' id' True) (store w)) = Inl NotFoundError \<longrightarrow>
            fst (FastAPIQuota_show_deleted manager trans' id' w) = Inl NotFoundError
            \<and> (string_as_bool s \<longrightarrow>
                 fst (QuotaAPIController_show manager trans' id' (Some s) kwd w)
                   = Inl NotFoundError))"
  using assms
  by (simp add: FastAPIQuota_admin QuotaAPIController_admin string_as_bool_False fst_invoke)

theorem show_delegates_flag_witness:
  "user_is_admin admin
   \<and> fst (FastAPIQuota_show sample_manager admin ''d2'' w0) = Inl NotFoundError
   \<and> fst (QuotaAPIController_show sample_manager admin ''d2'' None [] w0) = Inl NotFoundError
   \<and> fst (FastAPIQuota_show_deleted sample_manager admin ''d2'' w0) = Inr (QuotaDetails q_gone)
   \<and> fst (FastAPIQuota_show sample_manager admin ''a1'' w0) = Inr (QuotaDetails q_active)
   \<and> fst (FastAPIQuota_show_deleted sample_manager admin ''a1'' w0) = Inl NotFoundError
   \<and> fst (QuotaAPIController_show sample_manager admin ''a1'' (Some ''true'') [] w0)
       = Inl NotFoundError"
proof -
  have t: "string_as_bool ''true''"
    by (simp add: string_as_bool_iff)
  show ?thesis
    using show_delegates_flag [OF admin_is_admin, of sample_manager "''d2''" w0 "[]" "''true''"]
      show_delegates_flag [OF admin_is_admin, of sample_manager "''a1''" w0 "[]" "''true''"]
    by (simp add: admin_is_admin t fst_invoke store_w0 q_active_def q_gone_def)
qed

subsection \<open>C7: the identifier reaches the manager as received\<close>

text \<open>
  C7. For every operation that takes a quota identifier (show, show-deleted, update,
  delete, undelete), on both classes and for every identifier string, the handler applies
  the manager to a call that carries the identifier exactly as the handler received it:
  its result and the store it leaves are those of the manager at that call, and that call
  is the one logged. The legacy \<^verbatim>\<open>update\<close> and \<^verbatim>\<open>delete\<close> make no call at all when
  their payload does not construct.
\<close>

theorem identifier_passed_unchanged:
  assumes "user_is_admin trans'"
  shows "FastAPIQuota_show manager trans' id' w
           = (fst (manager (Call_show trans' id' False) (store w)),
              \<lparr>store = snd (manager (Call_show trans' id' False) (store w)),
                calls = calls w @ [Call_show trans' id' False]\<rparr>)
       \<and> FastAPIQuota_show_deleted manager trans' id' w
           = (fst (manager (Call_show trans' id' True) (store w)),
              \<lparr>store = snd (manager (Call_show trans' id' True) (store w)),
                calls = calls w @ [Call_show trans' id' True]\<rparr>)
       \<and> FastAPIQuota_update manager up id' trans' w
           = (fst (manager (Call_update trans' id' up) (store w)),
              \<lparr>store = snd (manager (Call_update trans' id' up) (store w)),
                calls = calls w @ [Call_update trans' id' up]\<rparr>)
       \<and> FastAPIQuota_delete manager id' trans' dp w
           = (fst (manager (Call_delete trans' id' dp) (store w)),
              \<lparr>store = snd (manager (Call_delete trans' id' dp) (store w)),
                calls = calls w @ [Call_delete trans' id' dp]\<rparr>)
       \<and> FastAPIQuota_undelete manager id' trans' w
           = (fst (manager (Call_undelete trans' id') (store w)),
              \<lparr>store = snd (manager (Call_undelete trans' id') (store w)),
                calls = calls w @ [Call_undelete trans' id']\<rparr>)
       \<and> QuotaAPIController_show manager trans' id' (Some s) kwd w
           = (fst (manager (Call_show trans' id' (string_as_bool s)) (store w)),
              \<lparr>store = snd (manager (Call_show trans' id' (string_as_bool s)) (store w)),
                calls = calls w @ [Call_show trans' id' (string_as_bool s)]\<rparr>)
       \<and> QuotaAPIController_show manager trans' id' None kwd w
           = (fst (manager (Call_show trans' id' False) (store w)),
              \<lparr>store = snd (manager (Call_show trans' id' False) (store w)),
                calls = calls w @ [Call_show trans' id' False]\<rparr>)
       \<and> QuotaAPIController_update sch manager trans' id' payload kwd w
           = (case keyword_args payload of
                Inl e \<Rightarrow> (Inl e, w)
              | Inr args \<Rightarrow>
                  (case UpdateQuotaParams sch args of
                     Inl e \<Rightarrow> (Inl e, w)
                   | Inr params \<Rightarrow>
                       (fst (manager (Call_update trans' id' params) (store w)),
                        \<lparr>store = snd (manager (Call_update trans' id' params) (store w)),
                          calls = calls w @ [Call_update trans' id' params]\<rparr>)))
       \<and> QuotaAPIController_delete sch manager trans' id' kwd w
           = (case keyword_args (kwd_get_payload kwd) of
                Inl e \<Rightarrow> (Inl e, w)
              | Inr args \<Rightarrow>
                  (case DeleteQuotaPayload sch args of
                     Inl e \<Rightarrow> (Inl e, w)
                   | Inr p \<Rightarrow>
                       (fst (manager (Call_delete trans' id' (Some p)) (store w)),
                        \<lparr>store = snd (manager (Call_delete trans' id' (Some p)) (store w)),
                          calls = calls w @ [Call_delete trans' id' (Some p)]\<rparr>)))
       \<and> QuotaAPIController_undelete manager trans' id' kwd w
           = (fst (manager (Call_undelete trans' id') (store w)),
              \<lparr>store = snd (manager (Call_undelete trans' id') (store w)),
                calls = calls w @ [Call_undelete trans' id']\<rparr>)"
proof -
  have u: "QuotaAPIController_update sch manager trans' id' payload kwd w
           = (case keyword_args payload of
                Inl e \<Rightarrow> (Inl e, w)
              | Inr args \<Rightarrow>
                  (case UpdateQuotaParams sch args of
                     Inl e \<Rightarrow> (Inl e, w)
                   | Inr params \<Rightarrow>
                       (fst (manager (Call_update trans' id' params) (store w)),
                        \<lparr>store = snd (manager (Call_update trans' id' params) (store w)),
                          calls = calls w @ [Call_update trans' id' params]\<rparr>)))"
    using assms
    by (simp add: QuotaAPIController_admin raising_def invoke_applies split: sum.splits)
  have d: "QuotaAPIController_delete sch manager trans' id' kwd w
           = (case keyword_args (kwd_get_payload kwd) of
                Inl e \<Rightarrow> (Inl e, w)
              | Inr args \<Rightarrow>
                  (case DeleteQuotaPayload sch args of
                     Inl e \<Rightarrow> (Inl e, w)
                   | Inr p \<Rightarrow>
                       (fst (manager (Call_delete trans' id' (Some p)) (store w)),
                        \<lparr>store = snd (manager (Call_delete trans' id' (Some p)) (store w)),
                          calls = calls w @ [Call_delete trans' id' (Some p)]\<rparr>)))"
    using assms
    by (simp add: QuotaAPIController_admin raising_def invoke_applies split: sum.splits)
  show ?thesis
    unfolding u d
    using assms
    by (simp add: FastAPIQuota_admin QuotaAPIController_admin(1-4,8) string_as_bool_False
        invoke_applies)
qed

theorem identifier_passed_unchanged_witness:
  "user_is_admin admin
   \<and> FastAPIQuota_show sample_manager admin ''a1'' w0
       = (Inr (QuotaDetails q_active),
          \<lparr>store = [q_active, q_gone], calls = [Call_show admin ''a1'' False]\<rparr>)
   \<and> FastAPIQuota_show sample_manager admin ''A1'' w0
       = (Inl NotFoundError,
          \<lparr>store = [q_active, q_gone], calls = [Call_show admin ''A1'' False]\<rparr>)
   \<and> FastAPIQuota_show_deleted sample_manager admin ''d2'' w0
       = (Inr (QuotaDetails q_gone),
          \<lparr>store = [q_active, q_gone], calls = [Call_show admin ''d2'' True]\<rparr>)
   \<and> FastAPIQuota_delete sample_manager ''a1'' admin (Some ()) w0
       = (Inr (Status ''deleted''),
          \<lparr>store = [q_active\<lparr>quota_deleted := True\<rparr>, q_gone],
            calls = [Call_delete admin ''a1'' (Some ())]\<rparr>)
   \<and> QuotaAPIController_update sample_schema sample_manager admin '' a1''
        (PDict [(''name'', PStr ''big'')]) [] w0
       = (Inl NotFoundError,
          \<lparr>store = [q_active, q_gone],
            calls = [Call_update admin '' a1'' (Some ''big'')]\<rparr>)
   \<and> QuotaAPIController_delete sample_schema sample_manager admin ''0042'' [] w0
       = (Inl NotFoundError,
          \<lparr>store = [q_active, q_gone], calls = [Call_delete admin ''0042'' (Some ())]\<rparr>)
   \<and> QuotaAPIController_undelete sample_manager admin ''d2'' [] w0
       = (Inr (Status ''undeleted''),
          \<lparr>store = [q_active, q_gone\<lparr>quota_deleted := False\<rparr>],
            calls = [Call_undelete admin ''d2'']\<rparr>)"
proof -
  note ev = admin_is_admin w0_def q_active_def q_gone_def has_quota_def set_deleted_def
    sample_schema_def kwd_get_payload_def
  have 1: "FastAPIQuota_show sample_manager admin ''a1'' w0
       = (Inr (QuotaDetails q_active),
          \<lparr>store = [q_active, q_gone], calls = [Call_show admin ''a1'' False]\<rparr>)"
    using identifier_passed_unchanged [OF admin_is_admin, of sample_manager "''a1''" w0 None
        "Some ()" "''x''" "[]" sample_schema PNone]
    by (simp add: ev)
  have 2: "FastAPIQuota_show sample_manager admin ''A1'' w0
       = (Inl NotFoundError,
          \<lparr>store = [q_active, q_gone], calls = [Call_show admin ''A1'' False]\<rparr>)"
    using identifier_passed_unchanged [OF admin_is_admin, of sample_manager "''A1''" w0 None
        "Some ()" "''x''" "[]" sample_schema PNone]
    by (simp add: ev)
  have 3: "FastAPIQuota_show_deleted sample_manager admin ''d2'' w0
       = (Inr (QuotaDetails q_gone),
          \<lparr>store = [q_active, q_gone], calls = [Call_show admin ''d2'' True]\<rparr>)"
    using identifier_passed_unchanged [OF admin_is_admin, of sample_manager "''d2''" w0 None
        "Some ()" "''x''" "[]" sample_schema PNone]
    by (simp add: ev)
  have 4: "FastAPIQuota_delete sample_manager ''a1'' admin (Some ()) w0
       = (Inr (Status ''deleted''),
          \<lparr>store = [q_active\<lparr>quota_deleted := True\<rparr>, q_gone],
            calls = [Call_delete admin ''a1'' (Some ())]\<rparr>)"
    using identifier_passed_unchanged [OF admin_is_admin, of sample_manager "''a1''" w0 None
        "Some ()" "''x''" "[]" sample_schema PNone]
    by (simp add: ev)
  have 5: "QuotaAPIController_update sample_schema sample_manager admin '' a1''
        (PDict [(''name'', PStr ''big'')]) [] w0
       = (Inl NotFoundError,
          \<lparr>store = [q_active, q_gone],
            calls = [Call_update admin '' a1'' (Some ''big'')]\<rparr>)"
    using identifier_passed_unchanged [OF admin_is_admin, of sample_manager "'' a1''" w0 None
        "Some ()" "''x''" "[]" sample_schema "PDict [(''name'', PStr ''big'')]"]
    by (simp add: ev)
  have 6: "QuotaAPIController_delete sample_schema sample_manager admin ''0042'' [] w0
       = (Inl NotFoundError,
          \<lparr>store = [q_active, q_gone], calls = [Call_delete admin ''0042'' (Some ())]\<rparr>)"
    using identifier_passed_unchanged [OF admin_is_admin, of sample_manager "''0042''" w0 None
        "Some ()" "''x''" "[]" sample_schema PNone]
    by (simp add: ev)
  have 7: "QuotaAPIController_undelete sample_manager admin ''d2'' [] w0
       = (Inr (Status ''undeleted''),
          \<lparr>store = [q_active, q_gone\<lparr>quota_deleted := False\<rparr>],
            calls = [Call_undelete admin ''d2'']\<rparr>)"
    using identifier_passed_unchanged [OF admin_is_admin, of sample_manager "''d2''" w0 None
        "Some ()" "''x''" "[]" sample_schema PNone]
    by (simp add: ev)
  show ?thesis
    using 1 2 3 4 5 6 7 admin_is_admin by blast
qed

subsection \<open>C8: errors leave the handlers unchanged\<close>

text \<open>
  C8. No handler of either class catches, transforms, retries or recovers. For an
  administrator: when the manager raises an error, the handler's result is that same
  error, after exactly one call (the log grows by that call and the store is what the
  manager left); when the coercion of a parameter raises (unpacking the payload,
  constructing the typed parameter object), the handler's result is that same error and
  the manager has not been called.
\<close>

theorem errors_propagate_unchanged:
  assumes "user_is_admin trans'"
  shows "(manager (Call_index trans' False) (store w) = (Inl e, s') \<longrightarrow>
            FastAPIQuota_index manager trans' w
              = (Inl e, \<lparr>store = s', calls = calls w @ [Call_index trans' False]\<rparr>))
       \<and> (manager (Call_index trans' True) (store w) = (Inl e, s') \<longrightarrow>
            FastAPIQuota_index_deleted manager trans' w
              = (Inl e, \<lparr>store = s', calls = calls w @ [Call_index trans' True]\<rparr>))
       \<and> (manager (Call_show trans' id' False) (store w) = (Inl e, s') \<longrightarrow>
            FastAPIQuota_show manager trans' id' w
              = (Inl e, \<lparr>store = s', calls = calls w @ [Call_show trans' id' False]\<rparr>))
       \<and> (manager (Call_show trans' id' True) (store w) = (Inl e, s') \<longrightarrow>
            FastAPIQuota_show_deleted manager trans' id' w
              = (Inl e, \<lparr>store = s', calls = calls w @ [Call_show trans' id' True]\<rparr>))
       \<and> (manager (Call_create trans' cp) (store w) = (Inl e, s') \<longrightarrow>
            FastAPIQuota_create manager cp trans' w
              = (Inl e, \<lparr>store = s', calls = calls w @ [Call_create trans' cp]\<rparr>))
       \<and> (manager (Call_update trans' id' up) (store w) = (Inl e, s') \<longrightarrow>
            FastAPIQuota_update manager up id' trans' w
              = (Inl e, \<lparr>store = s', calls = calls w @ [Call_update trans' id' up]\<rparr>))
       \<and> (manager (Call_delete trans' id' dp) (store w) = (Inl e, s') \<longrightarrow>
            FastAPIQuota_delete manager id' trans' dp w
              = (Inl e, \<lparr>store = s', calls = calls w @ [Call_delete trans' id' dp]\<rparr>))
       \<and> (manager (Call_undelete trans' id') (store w) = (Inl e, s') \<longrightarrow>
            FastAPIQuota_undelete manager id' trans' w
              = (Inl e, \<lparr>store = s', calls = calls w @ [Call_undelete trans' id']\<rparr>)
            \<and> QuotaAPIController_undelete manager trans' id' kwd w
              = (Inl e, \<lparr>store = s', calls = calls w @ [Call_undelete trans' id']\<rparr>))
       \<and> (manager (Call_index trans' (string_as_bool s)) (store w) = (Inl e, s') \<longrightarrow>
            QuotaAPIController_index manager trans' (Some s) kwd w
              = (Inl e, \<lparr>store = s',
                          calls = calls w @ [Call_index trans' (string_as_bool s)]\<rparr>))
       \<and> (manager (Call_show trans' id' (string_as_bool s)) (store w) = (Inl e, s') \<longrightarrow>
            QuotaAPIController_show manager trans' id' (Some s) kwd w
              = (Inl e, \<lparr>store = s',
                          calls = calls w @ [Call_show trans' id' (string_as_bool s)]\<rparr>))
       \<and> (keyword_args payload = Inl e \<longrightarrow>
            QuotaAPIController_create sch manager trans' payload kwd w = (Inl e, w)
            \<and> QuotaAPIController_update sch manager trans' id' payload kwd w = (Inl e, w))
       \<and> (CreateQuotaParams sch args = Inl e \<longrightarrow>
            QuotaAPIController_create sch manager trans' (PDict args) kwd w = (Inl e, w))
       \<and> (UpdateQuotaParams sch args = Inl e \<longrightarrow>
            QuotaAPIController_update sch manager trans' id' (PDict args) kwd w = (Inl e, w))
       \<and> (keyword_args (kwd_get_payload kwd) = Inl e \<longrightarrow>
            QuotaAPIController_delete sch manager trans' id' kwd w = (Inl e, w))
       \<and> (keyword_args (kwd_get_payload kwd) = Inr args \<and> DeleteQuotaPayload sch args = Inl e
            \<longrightarrow> QuotaAPIController_delete sch manager trans' id' kwd w = (Inl e, w))
       \<and> (CreateQuotaParams sch args = Inr cp
            \<and> manager (Call_create trans' cp) (store w) = (Inl e, s') \<longrightarrow>
            QuotaAPIController_create sch manager trans' (PDict args) kwd w
              = (Inl e, \<lparr>store = s', calls = calls w @ [Call_create trans' cp]\<rparr>))
       \<and> (UpdateQuotaParams sch args = Inr up
            \<and> manager (Call_update trans' id' up) (store w) = (Inl e, s') \<longrightarrow>
            QuotaAPIController_update sch manager trans' id' (PDict args) kwd w
              = (Inl e, \<lparr>store = s', calls = calls w @ [Call_update trans' id' up]\<rparr>))
       \<and> (keyword_args (kwd_get_payload kwd) = Inr args \<and> DeleteQuotaPayload sch args = Inr p
            \<and> manager (Call_delete trans' id' (Some p)) (store w) = (Inl e, s') \<longrightarrow>
            QuotaAPIController_delete sch manager trans' id' kwd w
              = (Inl e, \<lparr>store = s', calls = calls w @ [Call_delete trans' id' (Some p)]\<rparr>))"
  using assms
  by (simp add: FastAPIQuota_admin QuotaAPIController_admin invoke_error raising_Inl
      raising_Inr)


theorem errors_propagate_unchanged_witness:
  "user_is_admin admin
   \<and> FastAPIQuota_show sample_manager admin ''zz'' w0
       = (Inl NotFoundError,
          \<lparr>store = [q_active, q_gone], calls = [Call_show admin ''zz'' False]\<rparr>)
   \<and> QuotaAPIController_undelete sample_manager admin ''a1'' [] w0
       = (Inl ConflictError,
          \<lparr>store = [q_active, q_gone], calls = [Call_undelete admin ''a1'']\<rparr>)
   \<and> QuotaAPIController_create sample_schema sample_manager admin (PDict []) [] w0
       = (Inl (ValidationError ''name''), w0)
   \<and> QuotaAPIController_update sample_schema sample_manager admin ''a1'' PNone [] w0
       = (Inl TypeError, w0)
   \<and> QuotaAPIController_delete sample_schema sample_manager admin ''zz'' [] w0
       = (Inl NotFoundError,
          \<lparr>store = [q_active, q_gone], calls = [Call_delete admin ''zz'' (Some ())]\<rparr>)"
  using errors_propagate_unchanged [OF admin_is_admin, of sample_manager w0 NotFoundError
      "[q_active, q_gone]" "''zz''" "''n''" None None "[]" "''False''" PNone sample_schema
      "[]" "()"]
    errors_propagate_unchanged [OF admin_is_admin, of sample_manager w0 ConflictError
      "[q_active, q_gone]" "''a1''" "''n''" None None "[]" "''False''" PNone sample_schema
      "[]" "()"]
    errors_propagate_unchanged [OF admin_is_admin, of sample_manager w0
      "ValidationError ''name''" "[q_active, q_gone]" "''a1''" "''n''" None None "[]"
      "''False''" PNone sample_schema "[]" "()"]
    errors_propagate_unchanged [OF admin_is_admin, of sample_manager w0 TypeError
      "[q_active, q_gone]" "''a1''" "''n''" None None "[]" "''False''" PNone sample_schema
      "[]" "()"]
  by (simp add: admin_is_admin w0_def q_active_def q_gone_def sample_schema_def has_quota_def
      kwd_get_payload_def)

subsection \<open>C9: the legacy \<^verbatim>\<open>create\<close> and \<^verbatim>\<open>update\<close> construct their parameters first\<close>

text \<open>
  C9. The legacy \<^verbatim>\<open>create\<close> and \<^verbatim>\<open>update\<close> build \<^verbatim>\<open>CreateQuotaParams\<close>
  resp. \<^verbatim>\<open>UpdateQuotaParams\<close> from the payload dict before they call the manager.
  When the construction raises (a ValidationError for a malformed payload, such as one
  without a required field), the handler's result is that error, the manager is not
  called and nothing changes; when it succeeds, the manager is called once, with the
  constructed parameters.
\<close>

theorem legacy_payload_construction:
  assumes "user_is_admin trans'"
  shows "(CreateQuotaParams sch args = Inl e \<longrightarrow>
            QuotaAPIController_create sch manager trans' (PDict args) kwd w = (Inl e, w))
       \<and> (CreateQuotaParams sch args = Inr cp \<longrightarrow>
            QuotaAPIController_create sch manager trans' (PDict args) kwd w
              = invoke manager (Call_create trans' cp) w)
       \<and> (UpdateQuotaParams sch args = Inl e \<longrightarrow>
            QuotaAPIController_update sch manager trans' id' (PDict args) kwd w = (Inl e, w))
       \<and> (UpdateQuotaParams sch args = Inr up \<longrightarrow>
            QuotaAPIController_update sch manager trans' id' (PDict args) kwd w
              = invoke manager (Call_update trans' id' up) w)"
  using assms
  by (simp add: QuotaAPIController_admin raising_Inl raising_Inr)

theorem legacy_payload_construction_witness:
  "user_is_admin admin
   \<and> QuotaAPIController_create sample_schema sample_manager admin
        (PDict [(''description'', PStr ''no name'')]) [] w0
       = (Inl (ValidationError ''name''), w0)
   \<and> calls w0 = []
   \<and> QuotaAPIController_create sample_schema sample_manager admin
        (PDict [(''name'', PStr ''big'')]) [] w0
       = (Inr (CreateQuotaResult
                \<lparr>quota_id = ''big'', quota_name = ''big'', quota_deleted = False\<rparr>),
          \<lparr>store = [q_active, q_gone,
                     \<lparr>quota_id = ''big'', quota_name = ''big'', quota_deleted = False\<rparr>],
            calls = [Call_create admin ''big'']\<rparr>)
   \<and> QuotaAPIController_update sample_schema sample_manager admin ''a1''
        (PDict [(''name'', PInt 3)]) [] w0
       = (Inl (ValidationError ''name''), w0)
   \<and> fst (QuotaAPIController_update sample_schema sample_manager admin ''a1''
        (PDict [(''name'', PStr ''large'')]) [] w0)
       = Inr (Status ''updated'')"
proof -
  have c1: "CreateQuotaParams sample_schema [(''description'', PStr ''no name'')]
      = Inl (ValidationError ''name'')"
    and c2: "CreateQuotaParams sample_schema [(''name'', PStr ''big'')] = Inr ''big''"
    and u1: "UpdateQuotaParams sample_schema [(''name'', PInt 3)]
      = Inl (ValidationError ''name'')"
    and u2: "UpdateQuotaParams sample_schema [(''name'', PStr ''large'')]
      = Inr (Some ''large'')"
    by (simp_all add: sample_schema_def)
  have m1: "invoke sample_manager (Call_create admin ''big'') w0
       = (Inr (CreateQuotaResult
                \<lparr>quota_id = ''big'', quota_name = ''big'', quota_deleted = False\<rparr>),
          \<lparr>store = [q_active, q_gone,
                     \<lparr>quota_id = ''big'', quota_name = ''big'', quota_deleted = False\<rparr>],
            calls = [Call_create admin ''big'']\<rparr>)"
    by (simp add: invoke_def w0_def q_active_def q_gone_def has_quota_def Let_def)
  have m2: "fst (invoke sample_manager (Call_update admin ''a1'' (Some ''large'')) w0)
       = Inr (Status ''updated'')"
    by (simp add: fst_invoke w0_def q_active_def q_gone_def has_quota_def)
  have r1: "QuotaAPIController_create sample_schema sample_manager admin
        (PDict [(''description'', PStr ''no name'')]) [] w0
       = (Inl (ValidationError ''name''), w0)"
    using legacy_payload_construction [OF admin_is_admin, of sample_schema
      "[(''description'', PStr ''no name'')]" "ValidationError ''name''" sample_manager "[]" w0
      "''big''" "''a1''" None] c1
    by simp
  have r2: "QuotaAPIController_create sample_schema sample_manager admin
        (PDict [(''name'', PStr ''big'')]) [] w0
       = invoke sample_manager (Call_create admin ''big'') w0"
    using legacy_payload_construction [OF admin_is_admin, of sample_schema
      "[(''name'', PStr ''big'')]" "ValidationError ''name''" sample_manager "[]" w0
      "''big''" "''a1''" None] c2
    by simp
  have r3: "QuotaAPIController_update sample_schema sample_manager admin ''a1''
        (PDict [(''name'', PInt 3)]) [] w0
       = (Inl (ValidationError ''name''), w0)"
    using legacy_payload_construction [OF admin_is_admin, of sample_schema
      "[(''name'', PInt 3)]" "ValidationError ''name''" sample_manager "[]" w0
      "''big''" "''a1''" None] u1
    by simp
  have r4: "QuotaAPIController_update sample_schema sample_manager admin ''a1''
        (PDict [(''name'', PStr ''large'')]) [] w0
       = invoke sample_manager (Call_update admin ''a1'' (Some ''large'')) w0"
    using legacy_payload_construction [OF admin_is_admin, of sample_schema
      "[(''name'', PStr ''large'')]" "ValidationError ''name''" sample_manager "[]" w0
      "''big''" "''a1''" "Some ''large''"] u2
    by simp
  show ?thesis
    by (simp only: r1 r2 r3 r4 m1 m2 admin_is_admin calls_w0 simp_thms)
qed

subsection \<open>C10: extra keyword arguments\<close>

text \<open>
  C10. In the legacy class, the keyword arguments beyond the named parameters have no
  influence: for \<^verbatim>\<open>index\<close>, \<^verbatim>\<open>show\<close>, \<^verbatim>\<open>create\<close>, \<^verbatim>\<open>update\<close> and
  \<^verbatim>\<open>undelete\<close>, two requests that differ only in \<^verbatim>\<open>kwd\<close> have the same outcome
  (the same result, store and manager calls); for \<^verbatim>\<open>delete\<close>, two requests whose
  \<^verbatim>\<open>kwd\<close> agree on the entry \<^verbatim>\<open>'payload'\<close> have the same outcome, whatever their
  other entries.
\<close>

theorem extra_keywords_ignored:
  "QuotaAPIController_index manager trans' deleted kwd w
     = QuotaAPIController_index manager trans' deleted kwd' w
   \<and> QuotaAPIController_show manager trans' id' deleted kwd w
     = QuotaAPIController_show manager trans' id' deleted kwd' w
   \<and> QuotaAPIController_create sch manager trans' payload kwd w
     = QuotaAPIController_create sch manager trans' payload kwd' w
   \<and> QuotaAPIController_update sch manager trans' id' payload kwd w
     = QuotaAPIController_update sch manager trans' id' payload kwd' w
   \<and> QuotaAPIController_undelete manager trans' id' kwd w
     = QuotaAPIController_undelete manager trans' id' kwd' w
   \<and> (map_of kwd ''payload'' = map_of kwd' ''payload'' \<longrightarrow>
        QuotaAPIController_delete sch manager trans' id' kwd w
          = QuotaAPIController_delete sch manager trans' id' kwd' w)"
  by (simp add: QuotaAPIController_defs kwd_get_payload_def)

theorem extra_keywords_ignored_witness:
  "map_of [(''purge'', PBool True), (''payload'', PDict []), (''key'', PStr ''abc'')] ''payload''
     = map_of [(''payload'', PDict [])] ''payload''
   \<and> QuotaAPIController_delete sample_schema sample_manager admin ''a1''
        [(''purge'', PBool True), (''payload'', PDict []), (''key'', PStr ''abc'')] w0
     = QuotaAPIController_delete sample_schema sample_manager admin ''a1''
        [(''payload'', PDict [])] w0
   \<and> QuotaAPIController_index sample_manager admin (Some ''true'')
        [(''deleted'', PStr ''false''), (''key'', PStr ''abc'')] w0
     = QuotaAPIController_index sample_manager admin (Some ''true'') [] w0"
  using extra_keywords_ignored [of sample_manager admin "Some ''true''"
      "[(''deleted'', PStr ''false''), (''key'', PStr ''abc'')]" w0 "[]" "''a1''"
      sample_schema PNone]
    extra_keywords_ignored [of sample_manager admin "Some ''true''"
      "[(''purge'', PBool True), (''payload'', PDict []), (''key'', PStr ''abc'')]" w0
      "[(''payload'', PDict [])]" "''a1''" sample_schema PNone]
  by simp

subsection \<open>C2: delete without a request body\<close>

text \<open>
  C2, as stated, fails on the typed class. The handler \<^verbatim>\<open>FastAPIQuota.delete\<close>
  declares \<^verbatim>\<open>payload: DeleteQuotaPayload = Body(None)\<close> and passes \<^verbatim>\<open>payload\<close> on:
  for a request with no body the manager is called with \<open>None\<close>, not with the default
  \<^verbatim>\<open>DeleteQuotaPayload\<close> (which the sample schema builds from the empty dict as \<open>()\<close>).
\<close>

theorem typed_delete_without_body_counterexample:
  "DeleteQuotaPayload sample_schema [] = Inr ()
   \<and> calls (snd (FastAPIQuota_delete sample_manager ''a1'' admin None w0))
       = [Call_delete admin ''a1'' None]
   \<and> calls (snd (FastAPIQuota_delete sample_manager ''a1'' admin None w0))
       \<noteq> [Call_delete admin ''a1'' (Some ())]"
  by (simp add: FastAPIQuota_admin admin_is_admin calls_invoke calls_w0 sample_schema_def)

text \<open>
  C2, amended. On the legacy class, delete with no \<^verbatim>\<open>'payload'\<close> entry builds
  \<^verbatim>\<open>DeleteQuotaPayload\<close> from the empty dict: it is the same request, with the same
  outcome, as delete with an explicitly empty payload, and the manager is called with the
  default payload. On the typed class, delete with no body calls the manager with the
  payload absent (\<open>None\<close>) and delete with an explicitly empty body calls it with the
  default payload; the result and the store of the two agree whenever the manager answers
  the two calls alike.
\<close>

theorem delete_without_body:
  assumes "user_is_admin trans'" and "map_of kwd ''payload'' = None"
  shows "QuotaAPIController_delete sch manager trans' id' kwd w
           = QuotaAPIController_delete sch manager trans' id' ((''payload'', PDict []) # kwd) w
       \<and> (DeleteQuotaPayload sch [] = Inr p \<longrightarrow>
            QuotaAPIController_delete sch manager trans' id' kwd w
              = invoke manager (Call_delete trans' id' (Some p)) w)
       \<and> FastAPIQuota_delete manager id' trans' None w
           = invoke manager (Call_delete trans' id' None) w
       \<and> FastAPIQuota_delete manager id' trans' (Some p) w
           = invoke manager (Call_delete trans' id' (Some p)) w
       \<and> (manager (Call_delete trans' id' None) (store w)
            = manager (Call_delete trans' id' (Some p)) (store w) \<longrightarrow>
            fst (FastAPIQuota_delete manager id' trans' None w)
              = fst (FastAPIQuota_delete manager id' trans' (Some p) w)
            \<and> store (snd (FastAPIQuota_delete manager id' trans' None w))
              = store (snd (FastAPIQuota_delete manager id' trans' (Some p) w)))"
  using assms
  by (simp add: FastAPIQuota_admin QuotaAPIController_admin kwd_get_payload_def raising_Inr
      fst_invoke store_invoke)

theorem delete_without_body_witness:
  "user_is_admin admin \<and> map_of [(''key'', PStr ''abc'')] ''payload'' = None
   \<and> QuotaAPIController_delete sample_schema sample_manager admin ''a1''
        [(''key'', PStr ''abc'')] w0
       = QuotaAPIController_delete sample_schema sample_manager admin ''a1''
        [(''payload'', PDict []), (''key'', PStr ''abc'')] w0
   \<and> QuotaAPIController_delete sample_schema sample_manager admin ''a1''
        [(''key'', PStr ''abc'')] w0
       = (Inr (Status ''deleted''),
          \<lparr>store = [q_active\<lparr>quota_deleted := True\<rparr>, q_gone],
            calls = [Call_delete admin ''a1'' (Some ())]\<rparr>)
   \<and> FastAPIQuota_delete sample_manager ''a1'' admin None w0
       = (Inr (Status ''deleted''),
          \<lparr>store = [q_active\<lparr>quota_deleted := True\<rparr>, q_gone],
            calls = [Call_delete admin ''a1'' None]\<rparr>)
   \<and> FastAPIQuota_delete sample_manager ''a1'' admin (Some ()) w0
       = (Inr (Status ''deleted''),
          \<lparr>store = [q_active\<lparr>quota_deleted := True\<rparr>, q_gone],
            calls = [Call_delete admin ''a1'' (Some ())]\<rparr>)"
proof -
  have k: "map_of [(''key'', PStr ''abc'')] ''payload'' = None"
    by simp
  have d: "DeleteQuotaPayload sample_schema [] = Inr ()"
    by (simp add: sample_schema_def)
  have m: "invoke sample_manager (Call_delete admin ''a1'' dp) w0
       = (Inr (Status ''deleted''),
          \<lparr>store = [q_active\<lparr>quota_deleted := True\<rparr>, q_gone],
            calls = [Call_delete admin ''a1'' dp]\<rparr>)" for dp
    by (simp add: invoke_def w0_def q_active_def q_gone_def has_quota_def set_deleted_def)
  note T = delete_without_body [OF admin_is_admin k, of sample_schema sample_manager "''a1''"
      w0 "()"]
  have e1: "QuotaAPIController_delete sample_schema sample_manager admin ''a1''
        [(''key'', PStr ''abc'')] w0
       = QuotaAPIController_delete sample_schema sample_manager admin ''a1''
        [(''payload'', PDict []), (''key'', PStr ''abc'')] w0"
    using T by (rule conjunct1)
  have e2: "QuotaAPIController_delete sample_schema sample_manager admin ''a1''
        [(''key'', PStr ''abc'')] w0
       = invoke sample_manager (Call_delete admin ''a1'' (Some ())) w0"
    using T d by blast
  have e3: "FastAPIQuota_delete sample_manager ''a1'' admin None w0
       = invoke sample_manager (Call_delete admin ''a1'' None) w0"
    using T by blast
  have e4: "FastAPIQuota_delete sample_manager ''a1'' admin (Some ()) w0
       = invoke sample_manager (Call_delete admin ''a1'' (Some ())) w0"
    using T by blast
  show ?thesis
    unfolding e1 [symmetric] e2 e3 e4 m
    by (simp add: admin_is_admin)
qed

subsection \<open>C3: the two classes compared\<close>

text \<open>
  C3. For every context, administrator or not, and corresponding inputs, the typed and
  the legacy handler of an operation have the same outcome (the same manager call, result
  and store): \<^verbatim>\<open>index\<close> and \<^verbatim>\<open>show\<close> against the legacy handler whose
  \<^verbatim>\<open>deleted\<close> string is left out or coerces to false, \<^verbatim>\<open>index_deleted\<close> and
  \<^verbatim>\<open>show_deleted\<close> against the one whose string coerces to true, \<^verbatim>\<open>create\<close> and
  \<^verbatim>\<open>update\<close> when the typed payload is what the legacy payload dict constructs,
  \<^verbatim>\<open>delete\<close> when the typed payload is what the legacy \<^verbatim>\<open>'payload'\<close> entry (or the
  empty dict, when there is none) constructs, and \<^verbatim>\<open>undelete\<close>. For an administrator
  that outcome is the manager's: the handler applies the manager to one call and returns
  its result. For delete without a payload both classes call the manager's
  \<^verbatim>\<open>delete\<close> with the same context and identifier, the typed one with the payload
  absent (\<open>None\<close>) and the legacy one with the default payload built from the empty
  dict; these are equivalent arguments for a manager that, as the spec has it, takes an
  absent payload for the default one, and whenever the manager answers the two calls alike
  the two handlers have the same result and leave the same store.
\<close>

theorem surfaces_agree:
  "FastAPIQuota_index manager trans' w = QuotaAPIController_index manager trans' None kwd w
   \<and> (\<not> string_as_bool s \<longrightarrow>
        FastAPIQuota_index manager trans' w
          = QuotaAPIController_index manager trans' (Some s) kwd w)
   \<and> (string_as_bool s \<longrightarrow>
        FastAPIQuota_index_deleted manager trans' w
          = QuotaAPIController_index manager trans' (Some s) kwd w)
   \<and> FastAPIQuota_show manager trans' id' w
       = QuotaAPIController_show manager trans' id' None kwd w
   \<and> (\<not> string_as_bool s \<longrightarrow>
        FastAPIQuota_show manager trans' id' w
          = QuotaAPIController_show manager trans' id' (Some s) kwd w)
   \<and> (string_as_bool s \<longrightarrow>
        FastAPIQuota_show_deleted manager trans' id' w
          = QuotaAPIController_show manager trans' id' (Some s) kwd w)
   \<and> (CreateQuotaParams sch args = Inr cp \<longrightarrow>
        FastAPIQuota_create manager cp trans' w
          = QuotaAPIController_create sch manager trans' (PDict args) kwd w)
   \<and> (UpdateQuotaParams sch args = Inr up \<longrightarrow>
        FastAPIQuota_update manager up id' trans' w
          = QuotaAPIController_update sch manager trans' id' (PDict args) kwd w)
   \<and> (map_of kwd ''payload'' = Some (PDict args) \<and> DeleteQuotaPayload sch args = Inr p \<longrightarrow>
        FastAPIQuota_delete manager id' trans' (Some p) w
          = QuotaAPIController_delete sch manager trans' id' kwd w)
   \<and> (map_of kwd ''payload'' = None \<and> DeleteQuotaPayload sch [] = Inr p \<longrightarrow>
        FastAPIQuota_delete manager id' trans' (Some p) w
          = QuotaAPIController_delete sch manager trans' id' kwd w)
   \<and> (map_of kwd ''payload'' = None \<and> DeleteQuotaPayload sch [] = Inr p
        \<and> manager (Call_delete trans' id' None) (store w)
            = manager (Call_delete trans' id' (Some p)) (store w) \<longrightarrow>
        fst (FastAPIQuota_delete manager id' trans' None w)
          = fst (QuotaAPIController_delete sch manager trans' id' kwd w)
        \<and> store (snd (FastAPIQuota_delete manager id' trans' None w))
          = store (snd (QuotaAPIController_delete sch manager trans' id' kwd w)))
   \<and> FastAPIQuota_undelete manager id' trans' w
       = QuotaAPIController_undelete manager trans' id' kwd w
   \<and> (user_is_admin trans' \<and> map_of kwd ''payload'' = None
        \<and> DeleteQuotaPayload sch [] = Inr p \<longrightarrow>
        FastAPIQuota_delete manager id' trans' None w
          = (fst (manager (Call_delete trans' id' None) (store w)),
             \<lparr>store = snd (manager (Call_delete trans' id' None) (store w)),
               calls = calls w @ [Call_delete trans' id' None]\<rparr>)
        \<and> QuotaAPIController_delete sch manager trans' id' kwd w
          = (fst (manager (Call_delete trans' id' (Some p)) (store w)),
             \<lparr>store = snd (manager (Call_delete trans' id' (Some p)) (store w)),
               calls = calls w @ [Call_delete trans' id' (Some p)]\<rparr>))
   \<and> (user_is_admin trans' \<longrightarrow>
        FastAPIQuota_index manager trans' w
          = (fst (manager (Call_index trans' False) (store w)),
             \<lparr>store = snd (manager (Call_index trans' False) (store w)),
               calls = calls w @ [Call_index trans' False]\<rparr>)
        \<and> FastAPIQuota_index_deleted manager trans' w
          = (fst (manager (Call_index trans' True) (store w)),
             \<lparr>store = snd (manager (Call_index trans' True) (store w)),
               calls = calls w @ [Call_index trans' True]\<rparr>)
        \<and> FastAPIQuota_show manager trans' id' w
          = (fst (manager (Call_show trans' id' False) (store w)),
             \<lparr>store = snd (manager (Call_show trans' id' False) (store w)),
               calls = calls w @ [Call_show trans' id' False]\<rparr>)
        \<and> FastAPIQuota_show_deleted manager trans' id' w
          = (fst (manager (Call_show trans' id' True) (store w)),
             \<lparr>store = snd (manager (Call_show trans' id' True) (store w)),
               calls = calls w @ [Call_show trans' id' True]\<rparr>)
        \<and> FastAPIQuota_create manager cp trans' w
          = (fst (manager (Call_create trans' cp) (store w)),
             \<lparr>store = snd (manager (Call_create trans' cp) (store w)),
               calls = calls w @ [Call_create trans' cp]\<rparr>)
        \<and> FastAPIQuota_update manager up id' trans' w
          = (fst (manager (Call_update trans' id' up) (store w)),
             \<lparr>store = snd (manager (Call_update trans' id' up) (store w)),
               calls = calls w @ [Call_update trans' id' up]\<rparr>)
        \<and> FastAPIQuota_delete manager id' trans' (Some p) w
          = (fst (manager (Call_delete trans' id' (Some p)) (store w)),
             \<lparr>store = snd (manager (Call_delete trans' id' (Some p)) (store w)),
               calls = calls w @ [Call_delete trans' id' (Some p)]\<rparr>)
        \<and> FastAPIQuota_undelete manager id' trans' w
          = (fst (manager (Call_undelete trans' id') (store w)),
             \<lparr>store = snd (manager (Call_undelete trans' id') (store w)),
               calls = calls w @ [Call_undelete trans' id']\<rparr>))
   \<and> (\<not> user_is_admin trans' \<longrightarrow>
        FastAPIQuota_delete manager id' trans' None w
          = QuotaAPIController_delete sch manager trans' id' kwd w)"
proof (cases "user_is_admin trans'")
  case True
  then show ?thesis
    by (simp add: FastAPIQuota_admin QuotaAPIController_admin string_as_bool_False
        kwd_get_payload_def raising_Inr invoke_applies)
next
  case False
  then show ?thesis
    by (simp add: FastAPIQuota_defs QuotaAPIController_defs AdminUserRequired_denied
        require_admin_denied)
qed

theorem surfaces_agree_witness:
  "\<not> string_as_bool ''False''
   \<and> FastAPIQuota_index sample_manager admin w0
       = QuotaAPIController_index sample_manager admin (Some ''False'') [] w0
   \<and> string_as_bool ''True''
   \<and> FastAPIQuota_show_deleted sample_manager admin ''d2'' w0
       = QuotaAPIController_show sample_manager admin ''d2'' (Some ''True'') [] w0
   \<and> CreateQuotaParams sample_schema [(''name'', PStr ''big'')] = Inr ''big''
   \<and> FastAPIQuota_create sample_manager ''big'' admin w0
       = QuotaAPIController_create sample_schema sample_manager admin
           (PDict [(''name'', PStr ''big'')]) [] w0
   \<and> UpdateQuotaParams sample_schema [(''name'', PStr ''big'')] = Inr (Some ''big'')
   \<and> FastAPIQuota_update sample_manager (Some ''big'') ''a1'' admin w0
       = QuotaAPIController_update sample_schema sample_manager admin ''a1''
           (PDict [(''name'', PStr ''big'')]) [] w0
   \<and> map_of [] ''payload'' = (None :: pyval option)
   \<and> DeleteQuotaPayload sample_schema [] = Inr ()
   \<and> FastAPIQuota_delete sample_manager ''a1'' admin (Some ()) w0
       = QuotaAPIController_delete sample_schema sample_manager admin ''a1'' [] w0
   \<and> fst (FastAPIQuota_delete sample_manager ''a1'' admin None w0)
       = fst (QuotaAPIController_delete sample_schema sample_manager admin ''a1'' [] w0)"
proof -
  have f: "\<not> string_as_bool ''False''" and t: "string_as_bool ''True''"
    by (simp_all add: string_as_bool_iff)
  have c: "CreateQuotaParams sample_schema [(''name'', PStr ''big'')] = Inr ''big''"
    and u: "UpdateQuotaParams sample_schema [(''name'', PStr ''big'')] = Inr (Some ''big'')"
    and d: "DeleteQuotaPayload sample_schema [] = Inr ()"
    by (simp_all add: sample_schema_def)
  have k: "map_of [] ''payload'' = (None :: pyval option)"
    by simp
  have m: "sample_manager (Call_delete admin ''a1'' None) (store w0)
      = sample_manager (Call_delete admin ''a1'' (Some ())) (store w0)"
    by simp
  note A = surfaces_agree [of sample_manager admin w0 "[]" "''False''" "''d2''" sample_schema
      "[(''name'', PStr ''big'')]" "''big''" "Some ''big''" "()"]
  note B = surfaces_agree [of sample_manager admin w0 "[]" "''True''" "''d2''" sample_schema
      "[(''name'', PStr ''big'')]" "''big''" "Some ''big''" "()"]
  note C = surfaces_agree [of sample_manager admin w0 "[]" "''True''" "''a1''" sample_schema
      "[(''name'', PStr ''big'')]" "''big''" "Some ''big''" "()"]
  have 1: "FastAPIQuota_index sample_manager admin w0
       = QuotaAPIController_index sample_manager admin (Some ''False'') [] w0"
    using A f by blast
  have 2: "FastAPIQuota_show_deleted sample_manager admin ''d2'' w0
       = QuotaAPIController_show sample_manager admin ''d2'' (Some ''True'') [] w0"
    using B t by blast
  have 3: "FastAPIQuota_create sample_manager ''big'' admin w0
       = QuotaAPIController_create sample_schema sample_manager admin
           (PDict [(''name'', PStr ''big'')]) [] w0"
    using A c by blast
  have 4: "FastAPIQuota_update sample_manager (Some ''big'') ''a1'' admin w0
       = QuotaAPIController_update sample_schema sample_manager admin ''a1''
           (PDict [(''name'', PStr ''big'')]) [] w0"
    using C u by blast
  have 5: "FastAPIQuota_delete sample_manager ''a1'' admin (Some ()) w0
       = QuotaAPIController_delete sample_schema sample_manager admin ''a1'' [] w0"
    using C k d by blast
  have 6: "fst (FastAPIQuota_delete sample_manager ''a1'' admin None w0)
       = fst (QuotaAPIController_delete sample_schema sample_manager admin ''a1'' [] w0)"
    using C k d m by blast
  show ?thesis
    using f t c u k d 1 2 3 4 5 6 by blast
qed

end
